theory Spec2Isabelle
  imports Complex_Main "HOL-Library.Log_Nat" "HOL-Library.Sublist"
begin

section \<open>Text\<close>

text \<open>
  A Python \<open>str\<close> is modelled as a \<open>string\<close> holding its UTF-8 encoding. Every keyword,
  city, category and regular-expression literal of \<open>app.py\<close> is ASCII, and an ASCII
  byte never occurs inside the encoding of a non-ASCII character, so substring tests and
  the pattern scans below agree with Python on every text whose non-ASCII characters are
  left alone by \<open>str.lower\<close> as far as ASCII goes and are neither decimal digits nor
  white space (that excludes U+0130, U+017F, U+212A, the non-ASCII digits and the
  non-ASCII blanks; on those the model says nothing).
\<close>

definition lower_char :: "char \<Rightarrow> char" where
  "lower_char c =
     (case map_of (zip ''ABCDEFGHIJKLMNOPQRSTUVWXYZ'' ''abcdefghijklmnopqrstuvwxyz'') c of
        Some d \<Rightarrow> d
      | None \<Rightarrow> c)"

definition upper_char :: "char \<Rightarrow> char" where
  "upper_char c =
     (case map_of (zip ''abcdefghijklmnopqrstuvwxyz'' ''ABCDEFGHIJKLMNOPQRSTUVWXYZ'') c of
        Some d \<Rightarrow> d
      | None \<Rightarrow> c)"

text \<open>\<open>s.lower()\<close>\<close>

definition py_lower :: "string \<Rightarrow> string" where
  "py_lower s = map lower_char s"

text \<open>\<open>s.capitalize()\<close>: the first character in upper case, the rest in lower case.\<close>

definition py_capitalize :: "string \<Rightarrow> string" where
  "py_capitalize s = (case s of [] \<Rightarrow> [] | c # cs \<Rightarrow> upper_char c # py_lower cs)"

text \<open>\<open>w in t\<close> on strings: \<open>w\<close> occurs in \<open>t\<close> as a contiguous block.\<close>

fun py_in :: "string \<Rightarrow> string \<Rightarrow> bool" where
  "py_in w [] = (w = [])"
| "py_in w (c # cs) = (prefix w (c # cs) \<or> py_in w cs)"

text \<open>\<open>any(w in t for w in ws)\<close>\<close>

definition any_in :: "string list \<Rightarrow> string \<Rightarrow> bool" where
  "any_in ws t = list_ex (\<lambda>w. py_in w t) ws"

section \<open>Event-type detection\<close>

definition detect_event_type :: "string \<Rightarrow> string" where
  "detect_event_type text =
     (let t = py_lower text in
      if any_in [''wedding'', ''marriage'', ''bride'', ''groom'', ''nuptial''] t
        then ''wedding''
      else if any_in [''corporate'', ''company'', ''office'', ''conference'', ''business'',
                      ''launch'', ''product launch''] t
        then ''corporate''
      else if any_in [''birthday'', ''bday'', ''birth day''] t
        then ''birthday''
      else if any_in [''festival'', ''fest'', ''music festival''] t
        then ''festival''
      else if any_in [''gala'', ''charity'', ''fundraiser'', ''award'', ''black tie''] t
        then ''gala''
      else if any_in [''concert'', ''live show'', ''performance night''] t
        then ''concert''
      else if any_in [''party'', ''celebration'', ''get together'', ''house party''] t
        then ''party''
      else ''default'')"

text \<open>
  The decision table of the specification: keyword sets in priority order, the first set
  with a member occurring in the lower-cased text wins, and no match gives the default.
\<close>

definition keyword_sets :: "(string \<times> string list) list" where
  "keyword_sets =
     [(''wedding'', [''wedding'', ''marriage'', ''bride'', ''groom'', ''nuptial'']),
      (''corporate'', [''corporate'', ''company'', ''office'', ''conference'', ''business'',
                       ''launch'', ''product launch'']),
      (''birthday'', [''birthday'', ''bday'', ''birth day'']),
      (''festival'', [''festival'', ''fest'', ''music festival'']),
      (''gala'', [''gala'', ''charity'', ''fundraiser'', ''award'', ''black tie'']),
      (''concert'', [''concert'', ''live show'', ''performance night'']),
      (''party'', [''party'', ''celebration'', ''get together'', ''house party''])]"

fun first_matching_set :: "(string \<times> string list) list \<Rightarrow> string \<Rightarrow> string" where
  "first_matching_set [] t = ''default''"
| "first_matching_set ((ty, ws) # rest) t =
     (if any_in ws t then ty else first_matching_set rest t)"

section \<open>Regular expressions\<close>

text \<open>
  The fragment of Python's \<open>re\<close> that the patterns of \<open>app.py\<close> use: character classes,
  case-insensitive literals, concatenation, alternation, the greedy option and greedy
  repetition of a class. \<open>rx_rests r s\<close> lists what is left of \<open>s\<close> after each way of
  matching \<open>r\<close> at its start, in the order in which the backtracking matcher tries them
  (the greedy choice first), so the head of the list is the match \<open>re\<close> reports.
\<close>

datatype rx =
    Eps
  | Sym "char \<Rightarrow> bool"
  | Lit string
  | Cat rx rx
  | Alt rx rx
  | Opt rx
  | Rep nat "char \<Rightarrow> bool"

text \<open>\<open>Rep n p\<close>: at least \<open>n\<close> characters of class \<open>p\<close>, as many as possible first.\<close>

fun rep_rests :: "nat \<Rightarrow> (char \<Rightarrow> bool) \<Rightarrow> string \<Rightarrow> string list" where
  "rep_rests n p [] = (if n = 0 then [[]] else [])"
| "rep_rests n p (c # cs) =
     (if p c then rep_rests (n - 1) p cs @ (if n = 0 then [c # cs] else [])
      else if n = 0 then [c # cs] else [])"

fun rx_rests :: "rx \<Rightarrow> string \<Rightarrow> string list" where
  "rx_rests Eps s = [s]"
| "rx_rests (Sym p) s = (case s of [] \<Rightarrow> [] | c # cs \<Rightarrow> if p c then [cs] else [])"
| "rx_rests (Lit w) s =
     (if py_lower (take (length w) s) = py_lower w then [drop (length w) s] else [])"
| "rx_rests (Cat a b) s = concat (map (rx_rests b) (rx_rests a s))"
| "rx_rests (Alt a b) s = rx_rests a s @ rx_rests b s"
| "rx_rests (Opt a) s = rx_rests a s @ [s]"
| "rx_rests (Rep n p) s = rep_rests n p s"

text \<open>
  Every pattern of \<open>app.py\<close> has one capturing group: a pattern is what stands before
  the group, the group, and what stands after it. A match is the pair of
  \<open>m.group(0)\<close> and \<open>m.group(1)\<close>.
\<close>

type_synonym pattern = "rx \<times> rx \<times> rx"

definition match_at :: "pattern \<Rightarrow> string \<Rightarrow> (string \<times> string) option" where
  "match_at pat s =
     (case pat of (lead, grp, trail) \<Rightarrow>
        (case concat (map (\<lambda>s1. concat (map (\<lambda>s2. map (\<lambda>s3.
                 (take (length s - length s3) s, take (length s1 - length s2) s1))
               (rx_rests trail s2)) (rx_rests grp s1))) (rx_rests lead s)) of
           [] \<Rightarrow> None
         | m # _ \<Rightarrow> Some m))"

text \<open>\<open>re.search\<close>: the match at the leftmost position that has one.\<close>

fun re_search :: "pattern \<Rightarrow> string \<Rightarrow> (string \<times> string) option" where
  "re_search pat [] = match_at pat []"
| "re_search pat (c # cs) =
     (case match_at pat (c # cs) of Some m \<Rightarrow> Some m | None \<Rightarrow> re_search pat cs)"

definition is_digit :: "char \<Rightarrow> bool" where
  "is_digit c = (c \<in> set ''0123456789'')"

definition is_digit_or_comma :: "char \<Rightarrow> bool" where
  "is_digit_or_comma c = (is_digit c \<or> c = CHR '','')"

definition is_space :: "char \<Rightarrow> bool" where
  "is_space c = (c \<in> set [CHR 0x09, CHR 0x0A, CHR 0x0B, CHR 0x0C, CHR 0x0D,
                            CHR 0x1C, CHR 0x1D, CHR 0x1E, CHR 0x1F, CHR 0x20])"

definition is_k :: "char \<Rightarrow> bool" where
  "is_k c = (c = CHR ''k'' \<or> c = CHR ''K'')"

definition is_dollar :: "char \<Rightarrow> bool" where
  "is_dollar c = (c = CHR 0x24)"

text \<open>\<open>int(raw)\<close> on a string of decimal digits, and \<open>s.replace(",", "")\<close>.\<close>

definition digit_val :: "char \<Rightarrow> int" where
  "digit_val c =
     (case map_of (zip ''0123456789'' [0, 1, 2, 3, 4, 5, 6, 7, 8, 9]) c of
        Some d \<Rightarrow> d
      | None \<Rightarrow> 0)"

definition int_of_digits :: "string \<Rightarrow> int" where
  "int_of_digits raw = foldl (\<lambda>n c. 10 * n + digit_val c) 0 raw"

definition strip_commas :: "string \<Rightarrow> string" where
  "strip_commas s = filter (\<lambda>c. c \<noteq> CHR '','') s"

section \<open>Budget extraction\<close>

text \<open>\<open>\d[\d,]*\<close> and \<open>\d[\d,]{2,}\<close>\<close>

definition number_rx :: rx where
  "number_rx = Cat (Sym is_digit) (Rep 0 is_digit_or_comma)"

definition long_number_rx :: rx where
  "long_number_rx = Cat (Sym is_digit) (Rep 2 is_digit_or_comma)"

text \<open>\<open>(?:dollar|usd|budget)\<close>, matched with \<open>re.IGNORECASE\<close>\<close>

definition unit_rx :: rx where
  "unit_rx = Alt (Lit ''dollar'') (Alt (Lit ''usd'') (Lit ''budget''))"

text \<open>The five patterns of \<open>extract_budget_from_text\<close>, each with its \<open>is_k\<close> flag.\<close>

definition budget_patterns :: "(pattern \<times> bool) list" where
  "budget_patterns =
     [((Sym is_dollar, number_rx, Sym is_k), True),
      ((Eps, number_rx, Cat (Sym is_k) (Cat (Rep 0 is_space) (Opt unit_rx))), True),
      ((Sym is_dollar, number_rx, Eps), False),
      ((Eps, long_number_rx, Cat (Rep 0 is_space) unit_rx), False),
      ((Cat (Lit ''budget'') (Cat (Rep 1 is_space)
          (Cat (Opt (Alt (Lit ''of'') (Alt (Lit ''is'') (Lit '':''))))
          (Cat (Rep 0 is_space) (Opt (Sym is_dollar))))),
        number_rx, Eps), False)]"

text \<open>
  The amount a pattern reads off the text: its leftmost match, commas removed, times
  1000 under \<open>is_k\<close>; \<open>None\<close> when the pattern does not match.
\<close>

definition pattern_amount :: "pattern \<times> bool \<Rightarrow> string \<Rightarrow> int option" where
  "pattern_amount pk text =
     (case re_search (fst pk) text of
        None \<Rightarrow> None
      | Some m \<Rightarrow>
          (let raw = strip_commas (snd m); val = int_of_digits raw
           in Some (if snd pk then val * 1000 else val)))"

text \<open>The loop over the patterns: the first amount of at least 100 is returned.\<close>

fun scan_patterns :: "(pattern \<times> bool) list \<Rightarrow> string \<Rightarrow> int option" where
  "scan_patterns [] text = None"
| "scan_patterns (pk # rest) text =
     (case pattern_amount pk text of
        Some val \<Rightarrow> if val \<ge> 100 then Some val else scan_patterns rest text
      | None \<Rightarrow> scan_patterns rest text)"

definition extract_budget_from_text :: "string \<Rightarrow> int option" where
  "extract_budget_from_text text = scan_patterns budget_patterns text"

text \<open>
  A pattern is passed over when it does not match, or when the amount of its leftmost
  match is below 100.
\<close>

definition rejected :: "pattern \<times> bool \<Rightarrow> string \<Rightarrow> bool" where
  "rejected pk text = (case pattern_amount pk text of None \<Rightarrow> True | Some val \<Rightarrow> val < 100)"

section \<open>Numbers\<close>

text \<open>
  A Python \<open>int\<close> is an \<open>int\<close>. A Python \<open>float\<close> is an IEEE 754 double; every finite
  double is a rational number and is modelled as that \<open>rat\<close>. Arithmetic on doubles is the
  exact operation followed by \<open>to_double\<close>, rounding to the nearest double with ties to
  the even mantissa. The model covers the normal range, where a double has a 53-bit
  mantissa (no operation below produces a subnormal or an infinity from arguments it
  accepts: conversions that would overflow raise, as in Python).
\<close>

datatype exn = Exn string

text \<open>\<open>round(x)\<close> on a float: to the nearest integer, ties to the even one.\<close>

definition py_round :: "rat \<Rightarrow> int" where
  "py_round x =
     (let f = \<lfloor>x\<rfloor>; d = x - of_int f
      in if d < 1 / 2 then f else if 1 / 2 < d then f + 1 else if even f then f else f + 1)"

text \<open>\<open>int(x)\<close> on a float: towards zero.\<close>

definition py_trunc :: "rat \<Rightarrow> int" where
  "py_trunc x = (if 0 \<le> x then \<lfloor>x\<rfloor> else \<lceil>x\<rceil>)"

text \<open>The binary exponent of a positive rational: \<open>2 powi ilog2 x \<le> x < 2 powi (ilog2 x + 1)\<close>.\<close>

definition ilog2 :: "rat \<Rightarrow> int" where
  "ilog2 x = (if 1 \<le> x then bitlen \<lfloor>x\<rfloor> - 1 else - bitlen (\<lceil>1 / x\<rceil> - 1))"

definition nearest_double :: "rat \<Rightarrow> rat" where
  "nearest_double x = (let e = ilog2 x - 52 in of_int (py_round (x / 2 powi e)) * 2 powi e)"

definition to_double :: "rat \<Rightarrow> rat" where
  "to_double x =
     (if x = 0 then 0 else if 0 < x then nearest_double x else - nearest_double (- x))"

text \<open>A decimal literal such as \<open>0.30\<close> denotes the double nearest to it.\<close>

definition float_lit :: "rat \<Rightarrow> rat" where
  "float_lit q = to_double q"

text \<open>
  \<open>float(n)\<close>, the conversion Python applies to the \<open>int\<close> operand of a mixed product:
  correctly rounded, and an \<open>OverflowError\<close> when the result would not be finite.
\<close>

definition float_of_int :: "int \<Rightarrow> exn + rat" where
  "float_of_int n =
     (let d = to_double (of_int n)
      in if 2 ^ 1024 \<le> \<bar>d\<bar> then Inl (Exn ''OverflowError'') else Inr d)"

text \<open>\<open>n * w\<close> for an \<open>int\<close> \<open>n\<close> and a float \<open>w\<close>.\<close>

definition int_times_float :: "int \<Rightarrow> rat \<Rightarrow> exn + rat" where
  "int_times_float n w =
     (case float_of_int n of Inl e \<Rightarrow> Inl e | Inr d \<Rightarrow> Inr (to_double (d * w)))"

section \<open>Planning tables\<close>

text \<open>
  The labels and texts of the tables carry pictographs and dashes. Each such character is
  named by its code point and stands for its UTF-8 bytes.
\<close>

definition U2013 :: string where
  "U2013 = [CHR 0xE2, CHR 0x80, CHR 0x93]"

definition U2014 :: string where
  "U2014 = [CHR 0xE2, CHR 0x80, CHR 0x94]"

definition U2614 :: string where
  "U2614 = [CHR 0xE2, CHR 0x98, CHR 0x94]"

definition U2705 :: string where
  "U2705 = [CHR 0xE2, CHR 0x9C, CHR 0x85]"

definition U2728 :: string where
  "U2728 = [CHR 0xE2, CHR 0x9C, CHR 0xA8]"

definition UFE0F :: string where
  "UFE0F = [CHR 0xEF, CHR 0xB8, CHR 0x8F]"

definition U1F354 :: string where
  "U1F354 = [CHR 0xF0, CHR 0x9F, CHR 0x8D, CHR 0x94]"

definition U1F355 :: string where
  "U1F355 = [CHR 0xF0, CHR 0x9F, CHR 0x8D, CHR 0x95]"

definition U1F37D :: string where
  "U1F37D = [CHR 0xF0, CHR 0x9F, CHR 0x8D, CHR 0xBD]"

definition U1F381 :: string where
  "U1F381 = [CHR 0xF0, CHR 0x9F, CHR 0x8E, CHR 0x81]"

definition U1F382 :: string where
  "U1F382 = [CHR 0xF0, CHR 0x9F, CHR 0x8E, CHR 0x82]"

definition U1F388 :: string where
  "U1F388 = [CHR 0xF0, CHR 0x9F, CHR 0x8E, CHR 0x88]"

definition U1F3A4 :: string where
  "U1F3A4 = [CHR 0xF0, CHR 0x9F, CHR 0x8E, CHR 0xA4]"

definition U1F3A8 :: string where
  "U1F3A8 = [CHR 0xF0, CHR 0x9F, CHR 0x8E, CHR 0xA8]"

definition U1F3AA :: string where
  "U1F3AA = [CHR 0xF0, CHR 0x9F, CHR 0x8E, CHR 0xAA]"

definition U1F3AE :: string where
  "U1F3AE = [CHR 0xF0, CHR 0x9F, CHR 0x8E, CHR 0xAE]"

definition U1F3AF :: string where
  "U1F3AF = [CHR 0xF0, CHR 0x9F, CHR 0x8E, CHR 0xAF]"

definition U1F3B5 :: string where
  "U1F3B5 = [CHR 0xF0, CHR 0x9F, CHR 0x8E, CHR 0xB5]"

definition U1F3B6 :: string where
  "U1F3B6 = [CHR 0xF0, CHR 0x9F, CHR 0x8E, CHR 0xB6]"

definition U1F3DB :: string where
  "U1F3DB = [CHR 0xF0, CHR 0x9F, CHR 0x8F, CHR 0x9B]"

definition U1F3E2 :: string where
  "U1F3E2 = [CHR 0xF0, CHR 0x9F, CHR 0x8F, CHR 0xA2]"

definition U1F3E5 :: string where
  "U1F3E5 = [CHR 0xF0, CHR 0x9F, CHR 0x8F, CHR 0xA5]"

definition U1F464 :: string where
  "U1F464 = [CHR 0xF0, CHR 0x9F, CHR 0x91, CHR 0xA4]"

definition U1F48C :: string where
  "U1F48C = [CHR 0xF0, CHR 0x9F, CHR 0x92, CHR 0x8C]"

definition U1F48D :: string where
  "U1F48D = [CHR 0xF0, CHR 0x9F, CHR 0x92, CHR 0x8D]"

definition U1F490 :: string where
  "U1F490 = [CHR 0xF0, CHR 0x9F, CHR 0x92, CHR 0x90]"

definition U1F4B0 :: string where
  "U1F4B0 = [CHR 0xF0, CHR 0x9F, CHR 0x92, CHR 0xB0]"

definition U1F4C5 :: string where
  "U1F4C5 = [CHR 0xF0, CHR 0x9F, CHR 0x93, CHR 0x85]"

definition U1F4CB :: string where
  "U1F4CB = [CHR 0xF0, CHR 0x9F, CHR 0x93, CHR 0x8B]"

definition U1F4E3 :: string where
  "U1F4E3 = [CHR 0xF0, CHR 0x9F, CHR 0x93, CHR 0xA3]"

definition U1F4F8 :: string where
  "U1F4F8 = [CHR 0xF0, CHR 0x9F, CHR 0x93, CHR 0xB8]"

definition U1F4F9 :: string where
  "U1F4F9 = [CHR 0xF0, CHR 0x9F, CHR 0x93, CHR 0xB9]"

definition U1F50A :: string where
  "U1F50A = [CHR 0xF0, CHR 0x9F, CHR 0x94, CHR 0x8A]"

definition U1F69A :: string where
  "U1F69A = [CHR 0xF0, CHR 0x9F, CHR 0x9A, CHR 0x9A]"

definition U1F6A8 :: string where
  "U1F6A8 = [CHR 0xF0, CHR 0x9F, CHR 0x9A, CHR 0xA8]"

definition U1F6E1 :: string where
  "U1F6E1 = [CHR 0xF0, CHR 0x9F, CHR 0x9B, CHR 0xA1]"

definition U1F942 :: string where
  "U1F942 = [CHR 0xF0, CHR 0x9F, CHR 0xA5, CHR 0x82]"

definition default_template :: "(string \<times> rat) list" where
  "default_template =
     [(U1F3DB @ UFE0F @ '' Venue'', float_lit 0.30),
      (U1F37D @ UFE0F @ '' Catering'', float_lit 0.25),
      (U1F3B5 @ '' Entertainment'', float_lit 0.20),
      (U1F4F8 @ '' Photography'', float_lit 0.10),
      (U1F388 @ '' Decorations'', float_lit 0.08),
      (U1F69A @ '' Miscellaneous'', float_lit 0.07)]"

definition BUDGET_TEMPLATES :: "(string \<times> (string \<times> rat) list) list" where
  "BUDGET_TEMPLATES =
     [(''wedding'',
        [(U1F490 @ '' Venue & Decor'', float_lit 0.30),
          (U1F37D @ UFE0F @ '' Catering & Drinks'', float_lit 0.25),
          (U1F3B5 @ '' Entertainment'', float_lit 0.20),
          (U1F4F8 @ '' Photography & Video'', float_lit 0.10),
          (U1F490 @ '' Flowers & Styling'', float_lit 0.07),
          (U1F48C @ '' Invitations & Misc'', float_lit 0.05),
          (U1F6E1 @ UFE0F @ '' Contingency Buffer'', float_lit 0.03)]),
      (''corporate'',
        [(U1F3DB @ UFE0F @ '' Venue & AV Setup'', float_lit 0.35),
          (U1F37D @ UFE0F @ '' Catering'', float_lit 0.25),
          (U1F3B5 @ '' Entertainment'', float_lit 0.15),
          (U1F4F8 @ '' Photography/Video'', float_lit 0.10),
          (U1F3A8 @ '' Branding & Signage'', float_lit 0.08),
          (U1F69A @ '' Logistics & Misc'', float_lit 0.07)]),
      (''birthday'',
        [(U1F3DB @ UFE0F @ '' Venue'', float_lit 0.25),
          (U1F355 @ '' Food & Drinks'', float_lit 0.30),
          (U1F3B5 @ '' Entertainment'', float_lit 0.20),
          (U1F4F8 @ '' Photography'', float_lit 0.08),
          (U1F382 @ '' Cake & Desserts'', float_lit 0.10),
          (U1F388 @ '' Decorations'', float_lit 0.07)]),
      (''festival'',
        [(U1F3A4 @ '' Stage & Sound'', float_lit 0.30),
          (U1F3B5 @ '' Artists/Performers'', float_lit 0.30),
          (U1F6A8 @ '' Security & Staffing'', float_lit 0.15),
          (U1F4E3 @ '' Marketing'', float_lit 0.10),
          (U1F354 @ '' Food Vendors'', float_lit 0.10),
          (U1F69A @ '' Logistics'', float_lit 0.05)]),
      (''party'',
        [(U1F3DB @ UFE0F @ '' Venue'', float_lit 0.25),
          (U1F355 @ '' Food & Drinks'', float_lit 0.35),
          (U1F3B5 @ '' Entertainment'', float_lit 0.20),
          (U1F4F8 @ '' Photography'', float_lit 0.08),
          (U1F388 @ '' Decorations'', float_lit 0.12)]),
      (''gala'',
        [(U1F3DB @ UFE0F @ '' Venue & Ambiance'', float_lit 0.30),
          (U1F37D @ UFE0F @ '' Catering (Fine Dining)'', float_lit 0.28),
          (U1F3B5 @ '' Entertainment'', float_lit 0.18),
          (U1F4F8 @ '' Photography/Video'', float_lit 0.10),
          (U1F490 @ '' Flowers & Styling'', float_lit 0.08),
          (U1F48C @ '' Invitations & Misc'', float_lit 0.06)]),
      (''concert'',
        [(U1F3A4 @ '' Artist Booking'', float_lit 0.40),
          (U1F3DB @ UFE0F @ '' Venue & Stage'', float_lit 0.25),
          (U1F50A @ '' Sound & Lighting'', float_lit 0.15),
          (U1F4E3 @ '' Marketing & Tickets'', float_lit 0.10),
          (U1F6A8 @ '' Security & Staff'', float_lit 0.07),
          (U1F69A @ '' Logistics'', float_lit 0.03)]),
      (''default'', default_template)]"

definition default_timeline :: "(string \<times> string) list" where
  "default_timeline =
     [(''6'' @ U2013 @ ''8 Weeks Before'',
       ''Book venue and set overall budget.''),
      (''4'' @ U2013 @ ''6 Weeks Before'',
       ''Book entertainment and catering, send invites.''),
      (''2'' @ U2013 @ ''4 Weeks Before'',
       ''Confirm vendors, finalize guest list.''),
      (''1 Week Before'',
       ''Confirm all bookings and logistics.''),
      (''Day Of '' @ U2728,
       ''Arrive early and enjoy!'')]"

definition EVENT_TIMELINES :: "(string \<times> (string \<times> string) list) list" where
  "EVENT_TIMELINES =
     [(''wedding'',
        [(''12'' @ U2013 @ ''18 Months Before'',
       ''Book venue & set budget. Begin wedding planning.''),
          (''9'' @ U2013 @ ''12 Months Before'',
       ''Book entertainment (singer, DJ, band) & photographer.''),
          (''6'' @ U2013 @ ''9 Months Before'',
       ''Finalize catering, florals, send save-the-dates.''),
          (''3'' @ U2013 @ ''6 Months Before'',
       ''Book hair/makeup, confirm all vendors.''),
          (''1'' @ U2013 @ ''2 Months Before'',
       ''Final fittings, rehearsal dinner, finalize seating.''),
          (''1 Week Before'',
       ''Confirm all bookings, prepare payments, final run-through.''),
          (''Day Of '' @ U1F48D,
       ''Arrive early, coordinate vendors '' @ U2014 @ '' enjoy your day!'')]),
      (''corporate'',
        [(''3'' @ U2013 @ ''6 Months Before'',
       ''Define objectives, set budget, secure venue.''),
          (''2'' @ U2013 @ ''3 Months Before'',
       ''Book speakers/entertainment, plan catering, send invites.''),
          (''6'' @ U2013 @ ''8 Weeks Before'',
       ''Confirm AV setup, branding materials, agenda.''),
          (''2'' @ U2013 @ ''4 Weeks Before'',
       ''Send reminders, confirm headcount, brief all vendors.''),
          (''1 Week Before'',
       ''Run tech checks, prepare materials, confirm logistics.''),
          (''Day Of '' @ U1F3E2,
       ''Arrive 2h early, setup registration, welcome attendees.'')]),
      (''birthday'',
        [(''6'' @ U2013 @ ''8 Weeks Before'',
       ''Choose theme, book venue, estimate guest count.''),
          (''4'' @ U2013 @ ''6 Weeks Before'',
       ''Book entertainment, send invitations, plan menu.''),
          (''2'' @ U2013 @ ''4 Weeks Before'',
       ''Order cake, confirm vendors, plan decorations.''),
          (''1 Week Before'',
       ''Get RSVPs, confirm final numbers, prepare playlist.''),
          (''Day Of '' @ U1F382,
       ''Set up early, welcome guests '' @ U2014 @ '' have an amazing time!'')]),
      (''festival'',
        [(''6'' @ U2013 @ ''12 Months Before'',
       ''Secure permits, book venue, finalize lineup budget.''),
          (''4'' @ U2013 @ ''6 Months Before'',
       ''Book headlining artists, launch ticket sales.''),
          (''2'' @ U2013 @ ''4 Months Before'',
       ''Book supporting acts, confirm food vendors, marketing.''),
          (''4'' @ U2013 @ ''8 Weeks Before'',
       ''Finalize stage plan, security briefing, volunteer training.''),
          (''1'' @ U2013 @ ''2 Weeks Before'',
       ''Load-in schedule, final checks, media accreditation.''),
          (''Day Of '' @ U1F3AA,
       ''Gates open '' @ U2014 @ '' enjoy the show!'')]),
      (''party'',
        [(''4'' @ U2013 @ ''6 Weeks Before'',
       ''Book venue and entertainment.''),
          (''2'' @ U2013 @ ''4 Weeks Before'',
       ''Send invites, finalize catering and decorations.''),
          (''1 Week Before'',
       ''Confirm RSVPs and vendor headcounts.''),
          (''Day Of '' @ U1F942,
       ''Set up early, welcome guests '' @ U2014 @ '' party on!'')]),
      (''gala'',
        [(''4'' @ U2013 @ ''6 Months Before'',
       ''Book venue, set gala theme, form planning committee.''),
          (''2'' @ U2013 @ ''4 Months Before'',
       ''Book entertainment, finalize catering, send invitations.''),
          (''4'' @ U2013 @ ''8 Weeks Before'',
       ''Confirm all vendors, plan program & speeches.''),
          (''1'' @ U2013 @ ''2 Weeks Before'',
       ''Final RSVP count, seating plan, briefing vendors.''),
          (''Day Of '' @ U2728,
       ''Arrive early for setup '' @ U2014 @ '' make it a night to remember!'')]),
      (''default'', default_timeline)]"

definition default_categories :: "string list" where
  "default_categories =
     [''Singer'', ''DJ'', ''Musician'', ''Photographer'', ''Performer'']"

definition ARTIST_CATEGORY_FOR_EVENT :: "(string \<times> string list) list" where
  "ARTIST_CATEGORY_FOR_EVENT =
     [(''wedding'',
        [''Singer'', ''Musician'', ''Photographer'', ''DJ'', ''Dancer'', ''Painter'']),
      (''corporate'',
        [''Performer'', ''DJ'', ''Musician'', ''Photographer'', ''Singer'']),
      (''birthday'',
        [''DJ'', ''Performer'', ''Musician'', ''Photographer'']),
      (''festival'',
        [''Singer'', ''DJ'', ''Dancer'', ''Musician'', ''Performer'']),
      (''party'',
        [''DJ'', ''Musician'', ''Performer'', ''Photographer'']),
      (''gala'',
        [''Singer'', ''Musician'', ''Photographer'', ''Dancer'', ''Painter'']),
      (''concert'',
        [''Singer'', ''DJ'', ''Musician'', ''Dancer'']),
      (''default'', default_categories)]"

definition default_tips :: "string list" where
  "default_tips =
     [U1F4CB @ '' Always have a backup plan for key vendors.'',
      U2705 @ '' Confirm all bookings 1 week before the event.'',
      U1F4B0 @ '' Keep a contingency budget of at least 5'' @ U2013 @ ''10%.'']"

definition PRO_TIPS :: "(string \<times> string list) list" where
  "PRO_TIPS =
     [(''wedding'',
        [U1F4C5 @ '' Book vendors at least 12 months ahead for peak wedding season.'',
          U1F4B0 @ '' Keep 5'' @ U2013 @ ''10% of budget as emergency buffer '' @ U2014 @ '' always.'',
          U1F464 @ '' A day-of coordinator saves stress and ensures everything runs on time.'']),
      (''corporate'',
        [U1F3AF @ '' Define your KPIs before booking entertainment '' @ U2014 @ '' align with event goals.'',
          U1F4F9 @ '' Record key sessions for post-event ROI content marketing.'',
          U1F3AE @ '' Interactive entertainment (magicians, live painters) boosts engagement 40%.'']),
      (''birthday'',
        [U1F3B5 @ '' Book DJ or entertainer at least 4'' @ U2013 @ ''6 weeks ahead.'',
          U1F381 @ '' Surprise elements (flash mob, live singer reveal) create lasting memories.'',
          U1F355 @ '' Catering quality = ~30% of overall guest experience.'']),
      (''festival'',
        [U1F4CB @ '' Secure all permits before any public announcements.'',
          U2614 @ '' Always have a rain contingency plan '' @ U2014 @ '' outdoor events depend on it.'',
          U1F3E5 @ '' On-site medical team is non-negotiable for large outdoor festivals.'']),
      (''party'',
        [U1F3B6 @ '' Great music = great party. Invest in a good DJ or live musician.'',
          U1F942 @ '' Over-cater on drinks by 15% '' @ U2014 @ '' you'' @ [CHR 0x27] @ ''ll thank yourself later.'',
          U1F4F8 @ '' Even a casual photographer captures priceless memories.'']),
      (''gala'',
        [U2728 @ '' Invest in lighting '' @ U2014 @ '' it transforms any venue for a fraction of cost.'',
          U1F3A4 @ '' A professional emcee keeps the program flowing smoothly.'',
          U1F48C @ '' Physical invitations for a gala elevate the guest experience.'']),
      (''default'', default_tips)]"

text \<open>
  \<open>TABLE["default"]\<close> raises \<open>KeyError\<close> when the key is missing, and
  \<open>TABLE.get(key, d)\<close> falls back to \<open>d\<close>.
\<close>

definition table_default :: "(string \<times> 'a) list \<Rightarrow> exn + 'a" where
  "table_default table =
     (case map_of table ''default'' of None \<Rightarrow> Inl (Exn ''KeyError'') | Some d \<Rightarrow> Inr d)"

definition dict_get :: "(string \<times> 'a) list \<Rightarrow> string \<Rightarrow> 'a \<Rightarrow> 'a" where
  "dict_get table k d = (case map_of table k of Some v \<Rightarrow> v | None \<Rightarrow> d)"

text \<open>The template, timeline, tips and preferred categories an event type gets.\<close>

abbreviation template_for :: "string \<Rightarrow> (string \<times> rat) list" where
  "template_for ev_type \<equiv> dict_get BUDGET_TEMPLATES ev_type default_template"

abbreviation timeline_for :: "string \<Rightarrow> (string \<times> string) list" where
  "timeline_for ev_type \<equiv> dict_get EVENT_TIMELINES ev_type default_timeline"

abbreviation tips_for :: "string \<Rightarrow> string list" where
  "tips_for ev_type \<equiv> dict_get PRO_TIPS ev_type default_tips"

abbreviation categories_for :: "string \<Rightarrow> string list" where
  "categories_for ev_type \<equiv> dict_get ARTIST_CATEGORY_FOR_EVENT ev_type default_categories"

section \<open>Catalog\<close>

record artist =
  artist_id :: int
  name :: string
  category :: string
  location :: string
  skills :: "string list"
  price_min :: int
  price_max :: int
  rating :: rat
  event_types :: "string list"
  bio :: string
  badge :: string
  avatar :: string

text \<open>
  What the engines reach outside the program for. \<open>load_artists\<close> is the outcome of
  reading the catalog file: the records, or the exception the read raises. The embedding
  model, the similarity index built at start-up (absent when FAISS is not available) and
  the brute-force cosine ranking are library calls; each is a function that returns its
  result or the exception it raises. \<open>'v\<close> is the type of embedding vectors.
\<close>

record 'v env =
  load_artists :: "exn + artist list"
  encode_query :: "string \<Rightarrow> exn + 'v"
  index_search :: "('v \<Rightarrow> int \<Rightarrow> exn + (rat \<times> int) list) option"
  artists_for_rag :: "artist list"
  cosine_search :: "'v \<Rightarrow> int \<Rightarrow> exn + (artist \<times> rat) list"

section \<open>Planning engine\<close>

record plan =
  event_name :: string
  event_type :: string
  total_budget :: int
  breakdown :: "(string \<times> int) list"
  timeline :: "(string \<times> string) list"
  tips :: "string list"
  artists :: "artist list"
  entertainment_budget :: int

text \<open>\<open>d[k] = v\<close> on an insertion-ordered dictionary.\<close>

fun dict_set :: "('k \<times> 'v) list \<Rightarrow> 'k \<Rightarrow> 'v \<Rightarrow> ('k \<times> 'v) list" where
  "dict_set [] k v = [(k, v)]"
| "dict_set ((k', v') # d) k v = (if k' = k then (k', v) # d else (k', v') # dict_set d k v)"

text \<open>
  The loop \<open>for cat, pct in template.items(): breakdown[cat] = round(budget * pct)\<close>,
  started from the dictionary built so far.
\<close>

fun fill_breakdown ::
  "int \<Rightarrow> (string \<times> rat) list \<Rightarrow> (string \<times> int) list \<Rightarrow> exn + (string \<times> int) list" where
  "fill_breakdown budget [] acc = Inr acc"
| "fill_breakdown budget ((cat, pct) # rest) acc =
     (case int_times_float budget pct of
        Inl e \<Rightarrow> Inl e
      | Inr x \<Rightarrow> fill_breakdown budget rest (dict_set acc cat (py_round x)))"

definition is_entertainment_label :: "string \<Rightarrow> bool" where
  "is_entertainment_label k =
     (py_in ''entertainment'' (py_lower k) \<or> py_in ''artist'' (py_lower k))"

text \<open>
  \<open>next((v for k, v in breakdown.items() if ...), fallback)\<close>: the fallback is an
  argument, computed before the search.
\<close>

definition first_entertainment :: "(string \<times> int) list \<Rightarrow> int \<Rightarrow> int" where
  "first_entertainment bd fallback =
     (case find (\<lambda>kv. is_entertainment_label (fst kv)) bd of
        Some kv \<Rightarrow> snd kv
      | None \<Rightarrow> fallback)"

text \<open>\<open>xs.sort(key=lambda x: x["rating"], reverse=True)\<close>: stable, highest rating first.\<close>

definition sort_by_rating_desc :: "artist list \<Rightarrow> artist list" where
  "sort_by_rating_desc xs = sort_key (\<lambda>a. - rating a) xs"

definition shortlist :: "artist list \<Rightarrow> int \<Rightarrow> string list \<Rightarrow> artist list" where
  "shortlist catalog ent_budget pref_cats =
     (let candidates = filter (\<lambda>a. price_min a \<le> ent_budget \<and> category a \<in> set pref_cats) catalog;
          top_artists = take 3 (sort_by_rating_desc candidates)
      in if length top_artists < 2
         then (let extras = filter (\<lambda>a. price_min a \<le> ent_budget \<and> a \<notin> set top_artists) catalog
               in take 3 (top_artists @ sort_by_rating_desc extras))
         else top_artists)"

text \<open>
  \<open>generate_event_plan\<close>. The four lookups come first, each with the \<open>default\<close> entry of
  its table as fallback; then the breakdown is filled, the fallback of the entertainment
  budget is computed, and the catalog is read. An exception at any step ends the call.
\<close>

definition generate_event_plan :: "'v env \<Rightarrow> string \<Rightarrow> int \<Rightarrow> string \<Rightarrow> exn + plan" where
  "generate_event_plan env ev_name budget query =
     (let ev_type = detect_event_type (query @ '' '' @ ev_name)
      in case table_default BUDGET_TEMPLATES of Inl e \<Rightarrow> Inl e | Inr d1 \<Rightarrow>
         case table_default EVENT_TIMELINES of Inl e \<Rightarrow> Inl e | Inr d2 \<Rightarrow>
         case table_default PRO_TIPS of Inl e \<Rightarrow> Inl e | Inr d3 \<Rightarrow>
         case table_default ARTIST_CATEGORY_FOR_EVENT of Inl e \<Rightarrow> Inl e | Inr d4 \<Rightarrow>
         (let template = dict_get BUDGET_TEMPLATES ev_type d1;
              tline = dict_get EVENT_TIMELINES ev_type d2;
              tps = dict_get PRO_TIPS ev_type d3;
              pref_cats = dict_get ARTIST_CATEGORY_FOR_EVENT ev_type d4
          in case fill_breakdown budget template [] of
               Inl e \<Rightarrow> Inl e
             | Inr bd \<Rightarrow>
                 (case int_times_float budget (float_lit 0.20) of
                    Inl e \<Rightarrow> Inl e
                  | Inr x \<Rightarrow>
                      (let ent_budget = first_entertainment bd (py_trunc x)
                       in case load_artists env of
                            Inl e \<Rightarrow> Inl e
                          | Inr catalog \<Rightarrow>
                              Inr \<lparr>event_name = ev_name, event_type = ev_type,
                                   total_budget = budget, breakdown = bd, timeline = tline,
                                   tips = tps,
                                   artists = shortlist catalog ent_budget pref_cats,
                                   entertainment_budget = ent_budget\<rparr>))))"

section \<open>Retrieval engine\<close>

text \<open>The filter dictionary: a key that is absent is \<open>None\<close>.\<close>

record filters =
  max_budget :: "int option"
  city :: "string option"
  category_filter :: "string option"

definition no_filters :: filters where
  "no_filters = \<lparr>max_budget = None, city = None, category_filter = None\<rparr>"

text \<open>\<open>next(x for x in xs if x in tl)\<close> of the two \<open>for ... break\<close> loops.\<close>

definition first_in :: "string list \<Rightarrow> string \<Rightarrow> string option" where
  "first_in ws low = find (\<lambda>w. py_in w low) ws"

definition extract_filters :: "string \<Rightarrow> filters" where
  "extract_filters text =
     (let budget =
            (case re_search (Sym is_dollar, number_rx, Opt (Sym is_k)) text of
               None \<Rightarrow> None
             | Some m \<Rightarrow>
                 (let raw = strip_commas (snd m);
                      val = int_of_digits raw;
                      val = (if py_in ''k'' (py_lower (fst m)) then val * 1000 else val)
                  in if val \<ge> 100 then Some val else None));
          low = py_lower text
      in \<lparr>max_budget = budget,
          city = first_in [''new york'', ''chicago'', ''los angeles'', ''houston'', ''miami'',
                           ''atlanta'', ''dallas'', ''seattle'', ''boston'', ''nashville'',
                           ''las vegas'', ''detroit'', ''new orleans'', ''san francisco''] low,
          category_filter =
            map_option py_capitalize
              (first_in [''singer'', ''dancer'', ''musician'', ''painter'', ''photographer'',
                         ''dj'', ''performer''] low)\<rparr>)"

text \<open>The body of the loop of \<open>apply_filters\<close>: the value of \<open>ok\<close> for one candidate.\<close>

definition passes :: "filters \<Rightarrow> artist \<Rightarrow> bool" where
  "passes f a =
     (\<not> (case max_budget f of Some b \<Rightarrow> price_min a > b | None \<Rightarrow> False)
      \<and> \<not> (case city f of Some c \<Rightarrow> \<not> py_in c (py_lower (location a)) | None \<Rightarrow> False)
      \<and> \<not> (case category_filter f of
               Some c \<Rightarrow> py_lower (category a) \<noteq> py_lower c
             | None \<Rightarrow> False))"

definition apply_filters :: "(artist \<times> rat) list \<Rightarrow> filters \<Rightarrow> (artist \<times> rat) list" where
  "apply_filters results f =
     (let out = filter (\<lambda>r. passes f (fst r)) results
      in if out \<noteq> [] then out else results)"

text \<open>\<open>xs[:k]\<close>: a negative \<open>k\<close> counts from the end.\<close>

definition py_take :: "int \<Rightarrow> 'a list \<Rightarrow> 'a list" where
  "py_take k xs = (if 0 \<le> k then take (nat k) xs else take (length xs - nat (- k)) xs)"

text \<open>\<open>filtered = apply_filters(results, filters)[:top_k]\<close> and the list that is returned.\<close>

definition select_results ::
  "(artist \<times> rat) list \<Rightarrow> filters \<Rightarrow> int \<Rightarrow> (artist \<times> rat) list" where
  "select_results results f top_k =
     (let filtered = py_take top_k (apply_filters results f)
      in if filtered \<noteq> [] then filtered else py_take top_k results)"

text \<open>
  \<open>[(_artists_for_rag[i], float(scores[0][j])) for j, i in enumerate(indices[0]) if i >= 0]\<close>;
  an index past the end raises \<open>IndexError\<close>.
\<close>

fun lookup_hits :: "artist list \<Rightarrow> (rat \<times> int) list \<Rightarrow> exn + (artist \<times> rat) list" where
  "lookup_hits arts [] = Inr []"
| "lookup_hits arts ((score, i) # hits) =
     (if i \<ge> 0 then
        (if i < int (length arts) then
           (case lookup_hits arts hits of
              Inl e \<Rightarrow> Inl e
            | Inr rest \<Rightarrow> Inr ((arts ! nat i, score) # rest))
         else Inl (Exn ''IndexError''))
      else lookup_hits arts hits)"

text \<open>The body of the \<open>try\<close> block of \<open>rag_search\<close>.\<close>

definition rag_attempt ::
  "'v env \<Rightarrow> string \<Rightarrow> int \<Rightarrow> exn + ((artist \<times> rat) list \<times> filters)" where
  "rag_attempt env query top_k =
     (case encode_query env query of
        Inl e \<Rightarrow> Inl e
      | Inr qvec \<Rightarrow>
          (let f = extract_filters query;
               ranked =
                 (case index_search env of
                    Some search \<Rightarrow>
                      (case search qvec (min (top_k * 3) (int (length (artists_for_rag env)))) of
                         Inl e \<Rightarrow> Inl e
                       | Inr hits \<Rightarrow> lookup_hits (artists_for_rag env) hits)
                  | None \<Rightarrow> cosine_search env qvec (top_k * 3))
           in case ranked of
                Inl e \<Rightarrow> Inl e
              | Inr results \<Rightarrow> Inr (select_results results f top_k, f)))"

text \<open>
  \<open>rag_search\<close>: the \<open>except Exception\<close> handler reads the catalog and pairs its first
  entries with the score 0.5. The read in the handler is not guarded.
\<close>

definition rag_search ::
  "'v env \<Rightarrow> string \<Rightarrow> int \<Rightarrow> exn + ((artist \<times> rat) list \<times> filters)" where
  "rag_search env query top_k =
     (case rag_attempt env query top_k of
        Inr r \<Rightarrow> Inr r
      | Inl e \<Rightarrow>
          (case load_artists env of
             Inl e' \<Rightarrow> Inl e'
           | Inr arts \<Rightarrow> Inr (map (\<lambda>a. (a, 1 / 2)) (py_take top_k arts), no_filters)))"

section \<open>Provider cards\<close>

text \<open>\<open>min(int(s*100), 99)\<close> of \<open>_format_cards\<close>; \<open>s*100\<close> is a product of doubles.\<close>

definition match_score :: "rat \<Rightarrow> int" where
  "match_score s = min (py_trunc (to_double (s * 100))) 99"

record card =
  card_id :: int
  card_name :: string
  card_category :: string
  card_location :: string
  card_rating :: rat
  card_price_min :: int
  card_badge :: string
  card_avatar :: string
  card_match_score :: int

definition format_cards :: "(artist \<times> rat) list \<Rightarrow> card list" where
  "format_cards matches =
     map (\<lambda>(a, s). \<lparr>card_id = artist_id a, card_name = name a, card_category = category a,
                     card_location = location a, card_rating = rating a,
                     card_price_min = price_min a, card_badge = badge a,
                     card_avatar = avatar a, card_match_score = match_score s\<rparr>) matches"

section \<open>Concrete inputs\<close>

text \<open>A catalog record with the fields the engines read, and an environment in which
  the embedding model cannot be loaded and the catalog file cannot be read.\<close>

definition demo_artist :: "int \<Rightarrow> string \<Rightarrow> int \<Rightarrow> rat \<Rightarrow> artist" where
  "demo_artist i cat p r =
     \<lparr>artist_id = i, name = ''A'', category = cat, location = ''Chicago, IL'', skills = [],
      price_min = p, price_max = p, rating = r, event_types = [], bio = [], badge = [],
      avatar = []\<rparr>"

definition failing_env :: "unit env" where
  "failing_env =
     \<lparr>load_artists = Inl (Exn ''FileNotFoundError''),
      encode_query = (\<lambda>q. Inl (Exn ''RuntimeError'')),
      index_search = None, artists_for_rag = [],
      cosine_search = (\<lambda>v k. Inr [])\<rparr>"


text \<open>An environment whose catalog file holds the given records.\<close>

definition demo_env :: "artist list \<Rightarrow> unit env" where
  "demo_env catalog = failing_env\<lparr>load_artists := Inr catalog\<rparr>"

section \<open>Well-formed templates\<close>

text \<open>What the drift bound uses of a template: distinct labels, non-negative weights that
  sum to 1 up to the rounding of the literals, and at least five entries.\<close>

definition template_ok :: "(string \<times> rat) list \<Rightarrow> bool" where
  "template_ok tpl =
     (distinct (map fst tpl) \<and> list_all (\<lambda>kw. 0 \<le> snd kw) tpl
      \<and> \<bar>sum_list (map snd tpl) - 1\<bar> \<le> 1 / 2 ^ 55 \<and> 5 \<le> length tpl)"



text \<open>The labels of the wedding template and its weights as exact values.\<close>

definition wedding_labels :: "string list" where
  "wedding_labels =
     [U1F490 @ '' Venue & Decor'', U1F37D @ UFE0F @ '' Catering & Drinks'',
      U1F3B5 @ '' Entertainment'', U1F4F8 @ '' Photography & Video'',
      U1F490 @ '' Flowers & Styling'', U1F48C @ '' Invitations & Misc'',
      U1F6E1 @ UFE0F @ '' Contingency Buffer'']"

definition wedding_weights :: "rat list" where
  "wedding_weights =
     [5404319552844595 / 2 ^ 54, 1 / 2 ^ 2, 3602879701896397 / 2 ^ 54,
      3602879701896397 / 2 ^ 55, 1261007895663739 / 2 ^ 54, 3602879701896397 / 2 ^ 56,
      1080863910568919 / 2 ^ 55]"

section \<open>Properties of event-type detection\<close>

lemma lower_char_idem: "lower_char (lower_char c) = lower_char c"
  by (simp add: lower_char_def)

lemma py_lower_idem: "py_lower (py_lower s) = py_lower s"
  by (simp add: py_lower_def lower_char_idem)

text \<open>
  Claim C7. \<open>detect_event_type\<close> is the decision table over the lower-cased text, with
  the keyword sets tried in the order wedding, corporate, birthday, festival, gala,
  concert, party and \<open>default\<close> when no set matches; texts that differ only in letter
  case get the same type; and "planning our corporate wedding party" is a wedding.
\<close>

theorem detect_event_type_priority:
  "detect_event_type text = first_matching_set keyword_sets (py_lower text)
   \<and> map fst keyword_sets =
       [''wedding'', ''corporate'', ''birthday'', ''festival'', ''gala'', ''concert'', ''party'']
   \<and> (\<forall>other. py_lower other = py_lower text \<longrightarrow>
         detect_event_type other = detect_event_type text)
   \<and> detect_event_type ''planning our corporate wedding party'' = ''wedding''"
proof -
  have table: "detect_event_type text = first_matching_set keyword_sets (py_lower text)"
    by (simp add: detect_event_type_def keyword_sets_def Let_def)
  have order: "map fst keyword_sets =
      [''wedding'', ''corporate'', ''birthday'', ''festival'', ''gala'', ''concert'', ''party'']"
    by (simp add: keyword_sets_def)
  have caseless: "\<forall>other. py_lower other = py_lower text \<longrightarrow>
      detect_event_type other = detect_event_type text"
    by (simp add: detect_event_type_def)
  have vector: "detect_event_type ''planning our corporate wedding party'' = ''wedding''"
    by (simp add: detect_event_type_def any_in_def py_lower_def lower_char_def)
  from table order caseless vector show ?thesis by blast
qed

theorem detect_event_type_priority_witness:
  "py_lower ''Our Corporate WEDDING'' = py_lower ''our corporate wedding''
   \<and> detect_event_type ''Our Corporate WEDDING'' = ''wedding''"
proof -
  have same: "py_lower ''Our Corporate WEDDING'' = py_lower ''our corporate wedding''"
    by (simp add: py_lower_def lower_char_def)
  have low: "detect_event_type ''our corporate wedding'' = ''wedding''"
    by (simp add: detect_event_type_def any_in_def py_lower_def lower_char_def)
  from detect_event_type_priority [of "''our corporate wedding''"] same
  have "detect_event_type ''Our Corporate WEDDING'' = detect_event_type ''our corporate wedding''"
    by blast
  with same low show ?thesis by simp
qed

section \<open>Properties of budget extraction\<close>

lemmas budget_eval = extract_budget_from_text_def budget_patterns_def pattern_amount_def
  match_at_def number_rx_def long_number_rx_def unit_rx_def is_digit_def
  is_digit_or_comma_def is_space_def is_k_def is_dollar_def digit_val_def int_of_digits_def
  strip_commas_def py_lower_def lower_char_def

text \<open>
  Claim C3 (amended). \<open>"$2,500 budget"\<close> gives 2500 and \<open>"$50"\<close> gives nothing, but
  \<open>"2.5k for the event"\<close> gives 5000: the number pattern has no decimal point, so the
  second pattern first matches at \<open>5k\<close>.
\<close>

theorem extract_budget_test_vectors:
  "extract_budget_from_text ''$2,500 budget'' = Some 2500
   \<and> extract_budget_from_text ''2.5k for the event'' = Some 5000
   \<and> extract_budget_from_text ''$50'' = None"
  by (simp add: budget_eval)

theorem extract_budget_decimal_k_counterexample:
  "extract_budget_from_text ''2.5k for the event'' \<noteq> Some 2500"
  by (simp add: budget_eval)

lemma re_search_leftmost:
  "re_search pat text = Some m \<Longrightarrow>
     \<exists>skip rest. text = skip @ rest \<and> match_at pat rest = Some m
        \<and> (\<forall>k<length skip. match_at pat (drop k text) = None)"
proof (induction "text")
  case Nil
  then show ?case by simp
next
  case (Cons c cs)
  show ?case
  proof (cases "match_at pat (c # cs)")
    case (Some m')
    with Cons.prems have "c # cs = [] @ (c # cs)" "match_at pat (c # cs) = Some m" by simp_all
    then show ?thesis by (intro exI [of _ "[]"] exI [of _ "c # cs"]) simp
  next
    case None
    with Cons.prems have "re_search pat cs = Some m" by simp
    from Cons.IH [OF this] obtain skip rest where d: "cs = skip @ rest"
      "match_at pat rest = Some m" "\<forall>k<length skip. match_at pat (drop k cs) = None"
      by blast
    have "\<forall>k<length (c # skip). match_at pat (drop k (c # cs)) = None"
    proof (intro allI impI)
      fix k assume k: "k < length (c # skip)"
      show "match_at pat (drop k (c # cs)) = None"
      proof (cases k)
        case 0
        with None show ?thesis by simp
      next
        case (Suc j)
        with k d(3) show ?thesis by simp
      qed
    qed
    moreover from d have "c # cs = (c # skip) @ rest" by simp
    ultimately show ?thesis using d(2) by blast
  qed
qed

lemma scan_patterns_None:
  "scan_patterns ps text = None \<longleftrightarrow> list_all (\<lambda>pk. rejected pk text) ps"
  by (induction ps) (auto simp: rejected_def split: option.splits)

lemma scan_patterns_Some:
  "scan_patterns ps text = Some v \<longleftrightarrow>
     (\<exists>skipped pk later. ps = skipped @ pk # later
        \<and> list_all (\<lambda>q. rejected q text) skipped
        \<and> pattern_amount pk text = Some v \<and> 100 \<le> v)"
proof (induction ps)
  case Nil
  then show ?case by simp
next
  case (Cons p ps)
  show ?case
  proof (cases "rejected p text")
    case True
    then have step: "scan_patterns (p # ps) text = scan_patterns ps text"
      by (auto simp: rejected_def split: option.splits)
    have "(\<exists>skipped pk later. p # ps = skipped @ pk # later
        \<and> list_all (\<lambda>q. rejected q text) skipped
        \<and> pattern_amount pk text = Some v \<and> 100 \<le> v)
      \<longleftrightarrow> (\<exists>skipped pk later. ps = skipped @ pk # later
        \<and> list_all (\<lambda>q. rejected q text) skipped
        \<and> pattern_amount pk text = Some v \<and> 100 \<le> v)" (is "?L \<longleftrightarrow> ?R")
    proof
      assume ?L
      then obtain skipped pk later where d: "p # ps = skipped @ pk # later"
        "list_all (\<lambda>q. rejected q text) skipped" "pattern_amount pk text = Some v" "100 \<le> v"
        by blast
      show ?R
      proof (cases skipped)
        case Nil
        with d True show ?thesis by (simp add: rejected_def)
      next
        case (Cons a rest)
        with d have "ps = rest @ pk # later" "list_all (\<lambda>q. rejected q text) rest" by simp_all
        with d show ?thesis by blast
      qed
    next
      assume ?R
      then obtain skipped pk later where d: "ps = skipped @ pk # later"
        "list_all (\<lambda>q. rejected q text) skipped" "pattern_amount pk text = Some v" "100 \<le> v"
        by blast
      then have "p # ps = (p # skipped) @ pk # later"
        "list_all (\<lambda>q. rejected q text) (p # skipped)"
        using True by simp_all
      with d show ?L by blast
    qed
    with step Cons.IH show ?thesis by simp
  next
    case False
    then obtain w where w: "pattern_amount p text = Some w" "100 \<le> w"
      by (auto simp: rejected_def split: option.splits)
    then have step: "scan_patterns (p # ps) text = Some w" by simp
    have "(\<exists>skipped pk later. p # ps = skipped @ pk # later
        \<and> list_all (\<lambda>q. rejected q text) skipped
        \<and> pattern_amount pk text = Some v \<and> 100 \<le> v) \<longleftrightarrow> w = v" (is "?L \<longleftrightarrow> _")
    proof
      assume ?L
      then obtain skipped pk later where d: "p # ps = skipped @ pk # later"
        "list_all (\<lambda>q. rejected q text) skipped" "pattern_amount pk text = Some v" "100 \<le> v"
        by blast
      show "w = v"
      proof (cases skipped)
        case Nil
        with d w show ?thesis by simp
      next
        case (Cons a rest)
        with d False show ?thesis by simp
      qed
    next
      assume "w = v"
      with w have "p # ps = [] @ p # ps" "list_all (\<lambda>q. rejected q text) []"
        "pattern_amount p text = Some v" "100 \<le> v" by simp_all
      then show ?L by blast
    qed
    with step show ?thesis by auto
  qed
qed

lemma pattern_amount_leftmost:
  assumes "pattern_amount pk text = Some a"
  shows "\<exists>skip rest m. text = skip @ rest \<and> match_at (fst pk) rest = Some m
           \<and> (\<forall>k<length skip. match_at (fst pk) (drop k text) = None)
           \<and> a = int_of_digits (strip_commas (snd m)) * (if snd pk then 1000 else 1)"
proof -
  from assms obtain m where m: "re_search (fst pk) text = Some m"
    and a: "a = int_of_digits (strip_commas (snd m)) * (if snd pk then 1000 else 1)"
    by (auto simp: pattern_amount_def Let_def split: option.splits)
  from re_search_leftmost [OF m] a show ?thesis by blast
qed

text \<open>
  Claim C6 (amended). Each pattern is searched once: the amount it contributes is read
  off its leftmost match in the text, and no later match of the same pattern is looked at.
  A pattern whose leftmost match gives less than 100 is passed over and the loop goes on
  with the next pattern. The result is the amount of the first pattern, in the order of
  the list, whose leftmost match gives at least 100, and it is absent exactly when every
  pattern is passed over.
\<close>

theorem extract_budget_leftmost_match_per_pattern:
  "(extract_budget_from_text text = None \<longleftrightarrow>
      list_all (\<lambda>pk. rejected pk text) budget_patterns)
   \<and> (extract_budget_from_text text = Some v \<longleftrightarrow>
        (\<exists>skipped pk later. budget_patterns = skipped @ pk # later
           \<and> list_all (\<lambda>q. rejected q text) skipped
           \<and> pattern_amount pk text = Some v \<and> 100 \<le> v))
   \<and> (\<forall>pk a. pattern_amount pk text = Some a \<longrightarrow>
        (\<exists>skip rest m. text = skip @ rest \<and> match_at (fst pk) rest = Some m
           \<and> (\<forall>k<length skip. match_at (fst pk) (drop k text) = None)
           \<and> a = int_of_digits (strip_commas (snd m)) * (if snd pk then 1000 else 1)))"
  unfolding extract_budget_from_text_def
  using scan_patterns_None [of budget_patterns "text"]
    scan_patterns_Some [of budget_patterns "text" v] pattern_amount_leftmost [of _ "text"]
  by blast

theorem extract_budget_leftmost_match_per_pattern_witness:
  "list_all (\<lambda>q. rejected q ''$50 now, budget 400'') (take 4 budget_patterns)
   \<and> pattern_amount (budget_patterns ! 4) ''$50 now, budget 400'' = Some 400
   \<and> extract_budget_from_text ''$50 now, budget 400'' = Some 400"
proof -
  have parts: "budget_patterns = take 4 budget_patterns @ (budget_patterns ! 4) # []"
    by (simp add: budget_patterns_def)
  have skipped: "list_all (\<lambda>q. rejected q ''$50 now, budget 400'') (take 4 budget_patterns)"
    by (simp add: budget_eval rejected_def)
  have amount: "pattern_amount (budget_patterns ! 4) ''$50 now, budget 400'' = Some 400"
    by (simp add: budget_eval)
  have "\<exists>skipped pk later. budget_patterns = skipped @ pk # later
           \<and> list_all (\<lambda>q. rejected q ''$50 now, budget 400'') skipped
           \<and> pattern_amount pk ''$50 now, budget 400'' = Some 400 \<and> (100::int) \<le> 400"
    using parts skipped amount by (intro exI [of _ "take 4 budget_patterns"]
        exI [of _ "budget_patterns ! 4"] exI [of _ "[]"]) simp
  with extract_budget_leftmost_match_per_pattern [of "''$50 now, budget 400''" 400]
  have "extract_budget_from_text ''$50 now, budget 400'' = Some 400" by blast
  with skipped amount show ?thesis by simp
qed

theorem extract_budget_later_match_counterexample:
  "pattern_amount (budget_patterns ! 2) ''$5 and $5000'' = Some 5
   \<and> pattern_amount (budget_patterns ! 2) ''$5000'' = Some 5000
   \<and> extract_budget_from_text ''$5 and $5000'' = None"
  by (simp add: budget_eval)

section \<open>Properties of the number model\<close>

lemma py_round_bounds: "\<lfloor>y\<rfloor> \<le> py_round y \<and> py_round y \<le> \<lfloor>y\<rfloor> + 1"
  by (simp add: py_round_def Let_def)

lemma py_round_err: "\<bar>of_int (py_round y) - y\<bar> \<le> 1 / 2"
proof -
  have "of_int \<lfloor>y\<rfloor> \<le> y" "y < of_int \<lfloor>y\<rfloor> + 1" by linarith+
  then show ?thesis
    by (auto simp: py_round_def Let_def abs_le_iff)
qed

lemma py_round_nonneg: "0 \<le> y \<Longrightarrow> 0 \<le> py_round y"
  using py_round_bounds [of y] by (smt (verit) zero_le_floor)

lemma ilog2_le:
  assumes "0 < x"
  shows "2 powi ilog2 x \<le> x"
proof (cases "1 \<le> x")
  case True
  then have pos: "0 < \<lfloor>x\<rfloor>" by simp
  from bitlen_bounds [OF pos] have "2 ^ nat (bitlen \<lfloor>x\<rfloor> - 1) \<le> \<lfloor>x\<rfloor>" by simp
  then have "(2::rat) ^ nat (bitlen \<lfloor>x\<rfloor> - 1) \<le> of_int \<lfloor>x\<rfloor>"
    by (metis of_int_le_iff of_int_numeral of_int_power)
  also have "\<dots> \<le> x" by simp
  finally have le: "(2::rat) ^ nat (bitlen \<lfloor>x\<rfloor> - 1) \<le> x" .
  from pos have "1 \<le> bitlen \<lfloor>x\<rfloor>" by (simp add: bitlen_alt_def)
  then have "(2::rat) powi (bitlen \<lfloor>x\<rfloor> - 1) = 2 ^ nat (bitlen \<lfloor>x\<rfloor> - 1)"
    by (simp add: power_int_def)
  with le True show ?thesis by (simp add: ilog2_def)
next
  case False
  define m where "m = bitlen (\<lceil>1 / x\<rceil> - 1)"
  from False assms have "1 < 1 / x" by simp
  then have pos: "0 < \<lceil>1 / x\<rceil> - 1" by linarith
  from bitlen_bounds [OF pos] have "\<lceil>1 / x\<rceil> - 1 < 2 ^ nat m" by (simp add: m_def)
  then have "\<lceil>1 / x\<rceil> \<le> 2 ^ nat m" by simp
  then have "of_int \<lceil>1 / x\<rceil> \<le> (2::rat) ^ nat m"
    by (metis of_int_le_iff of_int_numeral of_int_power)
  moreover have "1 / x \<le> of_int \<lceil>1 / x\<rceil>" by simp
  ultimately have "1 / x \<le> (2::rat) ^ nat m" by linarith
  with assms have "1 / 2 ^ nat m \<le> x"
    by (simp add: field_simps)
  moreover have "0 \<le> m" by (simp add: m_def bitlen_nonneg)
  then have "(2::rat) powi (- m) = 1 / 2 ^ nat m"
    by (simp add: power_int_def field_simps)
  ultimately show ?thesis using False by (simp add: ilog2_def m_def)
qed

lemma nearest_double_err:
  assumes "0 < x"
  shows "\<bar>nearest_double x - x\<bar> \<le> x / 2 ^ 53"
proof -
  define e where "e = ilog2 x - 52"
  define p where "p = (2::rat) powi e"
  have ppos: "0 < p" by (simp add: p_def)
  have nd: "nearest_double x = of_int (py_round (x / p)) * p"
    by (simp add: nearest_double_def Let_def e_def p_def)
  have "nearest_double x - x = (of_int (py_round (x / p)) - x / p) * p"
    using ppos by (simp add: nd field_simps)
  then have "\<bar>nearest_double x - x\<bar> = \<bar>of_int (py_round (x / p)) - x / p\<bar> * p"
    using ppos by (simp add: abs_mult)
  also have "\<dots> \<le> (1 / 2) * p"
    using py_round_err [of "x / p"] ppos by (intro mult_right_mono) simp_all
  also have "(1 / 2) * p = (2::rat) powi ilog2 x / 2 ^ 53"
    by (simp add: p_def e_def power_int_diff)
  also have "\<dots> \<le> x / 2 ^ 53"
    using ilog2_le [OF assms] by (simp add: divide_right_mono)
  finally show ?thesis .
qed

lemma to_double_err: "0 \<le> x \<Longrightarrow> \<bar>to_double x - x\<bar> \<le> x / 2 ^ 53"
  using nearest_double_err [of x] by (cases "x = 0") (simp_all add: to_double_def)

lemma to_double_nonneg: "0 \<le> x \<Longrightarrow> 0 \<le> to_double x"
proof -
  assume a: "0 \<le> x"
  have "0 < x \<Longrightarrow> 0 \<le> nearest_double x"
    by (simp add: nearest_double_def Let_def py_round_nonneg)
  with a show ?thesis by (cases "x = 0") (simp_all add: to_double_def)
qed

section \<open>Properties of the planning tables\<close>

lemmas code_points = U2013_def U2014_def U2614_def U2705_def U2728_def UFE0F_def U1F354_def U1F355_def U1F37D_def U1F381_def U1F382_def U1F388_def U1F3A4_def U1F3A8_def U1F3AA_def U1F3AE_def U1F3AF_def U1F3B5_def U1F3B6_def U1F3DB_def U1F3E2_def U1F3E5_def U1F464_def U1F48C_def U1F48D_def U1F490_def U1F4B0_def U1F4C5_def U1F4CB_def U1F4E3_def U1F4F8_def U1F4F9_def U1F50A_def U1F69A_def U1F6A8_def U1F6E1_def U1F942_def

lemma float_lit_values:
  "float_lit 0.30 = 5404319552844595 / 2 ^ 54"
  "float_lit 0.25 = 1 / 2 ^ 2"
  "float_lit 0.20 = 3602879701896397 / 2 ^ 54"
  "float_lit 0.10 = 3602879701896397 / 2 ^ 55"
  "float_lit 0.07 = 1261007895663739 / 2 ^ 54"
  "float_lit 0.05 = 3602879701896397 / 2 ^ 56"
  "float_lit 0.03 = 1080863910568919 / 2 ^ 55"
  "float_lit 0.35 = 3152519739159347 / 2 ^ 53"
  "float_lit 0.15 = 5404319552844595 / 2 ^ 55"
  "float_lit 0.08 = 5764607523034235 / 2 ^ 56"
  "float_lit 0.12 = 1080863910568919 / 2 ^ 53"
  "float_lit 0.28 = 1261007895663739 / 2 ^ 52"
  "float_lit 0.18 = 3242591731706757 / 2 ^ 54"
  "float_lit 0.06 = 1080863910568919 / 2 ^ 54"
  "float_lit 0.40 = 3602879701896397 / 2 ^ 53"
  by code_simp+

lemma templates_ok: "list_all (\<lambda>kt. template_ok (snd kt)) BUDGET_TEMPLATES"
  unfolding BUDGET_TEMPLATES_def default_template_def float_lit_values
  by (simp add: template_ok_def code_points)

lemma py_in_appendI: "py_in w b \<Longrightarrow> py_in w (a @ b)"
  by (induction a) simp_all

lemma py_lower_append: "py_lower (a @ b) = py_lower a @ py_lower b"
  by (simp add: py_lower_def)

lemma entertainment_labels:
  "is_entertainment_label (p @ '' Entertainment'')"
  "is_entertainment_label (p @ '' Artists/Performers'')"
  "is_entertainment_label (p @ '' Artist Booking'')"
proof -
  have e: "py_in ''entertainment'' (py_lower '' Entertainment'')"
    by (simp add: py_lower_def lower_char_def)
  have a: "py_in ''artist'' (py_lower '' Artists/Performers'')"
    by (simp add: py_lower_def lower_char_def)
  have b: "py_in ''artist'' (py_lower '' Artist Booking'')"
    by (simp add: py_lower_def lower_char_def)
  show "is_entertainment_label (p @ '' Entertainment'')"
    unfolding is_entertainment_label_def py_lower_append using py_in_appendI [OF e] by blast
  show "is_entertainment_label (p @ '' Artists/Performers'')"
    unfolding is_entertainment_label_def py_lower_append using py_in_appendI [OF a] by blast
  show "is_entertainment_label (p @ '' Artist Booking'')"
    unfolding is_entertainment_label_def py_lower_append using py_in_appendI [OF b] by blast
qed

lemma templates_have_entertainment:
  "list_all (\<lambda>kt. list_ex (\<lambda>kw. is_entertainment_label (fst kw)) (snd kt)) BUDGET_TEMPLATES"
  unfolding BUDGET_TEMPLATES_def default_template_def
  by (simp add: entertainment_labels entertainment_labels [of "a @ b" for a b, simplified])

lemma table_defaults:
  "table_default BUDGET_TEMPLATES = Inr default_template"
  "table_default EVENT_TIMELINES = Inr default_timeline"
  "table_default PRO_TIPS = Inr default_tips"
  "table_default ARTIST_CATEGORY_FOR_EVENT = Inr default_categories"
  by (simp_all add: table_default_def BUDGET_TEMPLATES_def EVENT_TIMELINES_def PRO_TIPS_def
      ARTIST_CATEGORY_FOR_EVENT_def)

lemma dict_get_in:
  assumes "d \<in> snd ` set table"
  shows "dict_get table k d \<in> snd ` set table"
proof (cases "map_of table k")
  case None
  with assms show ?thesis by (simp add: dict_get_def)
next
  case (Some v)
  then have "dict_get table k d = v" by (simp add: dict_get_def)
  with map_of_SomeD [OF Some] show ?thesis by force
qed

lemma budget_default: "default_template \<in> snd ` set BUDGET_TEMPLATES"
proof -
  have "map_of BUDGET_TEMPLATES ''default'' = Some default_template"
    by (simp add: BUDGET_TEMPLATES_def)
  from map_of_SomeD [OF this] show ?thesis by force
qed

lemma template_ok_lookup: "template_ok (template_for k)"
  using dict_get_in [OF budget_default, of k] templates_ok by (auto simp: list_all_iff)

lemma template_entertainment_lookup:
  "list_ex (\<lambda>kw. is_entertainment_label (fst kw)) (template_for k)"
  using dict_get_in [OF budget_default, of k] templates_have_entertainment
  by (auto simp: list_all_iff)

lemma dict_set_fresh: "k \<notin> fst ` set d \<Longrightarrow> dict_set d k v = d @ [(k, v)]"
  by (induction d) auto

lemma fill_breakdown_keys:
  "fill_breakdown b tpl acc = Inr bd \<Longrightarrow> distinct (map fst acc @ map fst tpl) \<Longrightarrow>
     map fst bd = map fst acc @ map fst tpl"
proof (induction tpl arbitrary: acc)
  case Nil
  then show ?case by simp
next
  case (Cons kw tpl)
  obtain k w where kw: "kw = (k, w)" by (cases kw)
  from Cons.prems(1) kw obtain x where x: "int_times_float b w = Inr x"
    and rest: "fill_breakdown b tpl (dict_set acc k (py_round x)) = Inr bd"
    by (auto split: sum.splits)
  from Cons.prems(2) kw have fresh: "k \<notin> fst ` set acc" by auto
  then have ds: "dict_set acc k (py_round x) = acc @ [(k, py_round x)]"
    by (rule dict_set_fresh)
  from Cons.prems(2) kw have "distinct (map fst (acc @ [(k, py_round x)]) @ map fst tpl)"
    by auto
  from Cons.IH [OF rest [unfolded ds] this] kw show ?case by simp
qed

lemma fill_breakdown_values:
  assumes "float_of_int b = Inr d"
  shows "distinct (map fst acc @ map fst tpl) \<Longrightarrow>
     fill_breakdown b tpl acc =
       Inr (acc @ map (\<lambda>kw. (fst kw, py_round (to_double (d * snd kw)))) tpl)"
proof (induction tpl arbitrary: acc)
  case Nil
  then show ?case by simp
next
  case (Cons kw tpl)
  obtain k w where kw: "kw = (k, w)" by (cases kw)
  from assms have x: "int_times_float b w = Inr (to_double (d * w))"
    by (simp add: int_times_float_def)
  from Cons.prems kw have fresh: "k \<notin> fst ` set acc" by auto
  then have ds: "dict_set acc k (py_round (to_double (d * w)))
      = acc @ [(k, py_round (to_double (d * w)))]"
    by (rule dict_set_fresh)
  from Cons.prems kw
  have "distinct (map fst (acc @ [(k, py_round (to_double (d * w)))]) @ map fst tpl)"
    by auto
  from Cons.IH [OF this] kw x ds show ?case by simp
qed

lemma float_of_int_small:
  assumes "0 \<le> b" "b \<le> 2 ^ 53"
  shows "float_of_int b = Inr (to_double (of_int b))"
proof -
  from assms have nn: "(0::rat) \<le> of_int b" by simp
  from assms(2) have le: "(of_int b :: rat) \<le> 2 ^ 53"
    by (metis of_int_le_iff of_int_numeral of_int_power)
  from to_double_err [OF nn] have "to_double (of_int b) \<le> of_int b + of_int b / 2 ^ 53"
    by linarith
  also from le have "\<dots> \<le> 2 ^ 53 + 1" by simp
  finally have "to_double (of_int b) < 2 ^ 1024" by simp
  moreover from to_double_nonneg [OF nn] have "\<bar>to_double (of_int b)\<bar> = to_double (of_int b)"
    by simp
  ultimately show ?thesis by (simp add: float_of_int_def Let_def)
qed

lemma rounded_product_err:
  assumes "0 \<le> y"
  shows "\<bar>of_int (py_round (to_double y)) - y\<bar> \<le> 1 / 2 + y / 2 ^ 53"
  using py_round_err [of "to_double y"] to_double_err [OF assms] by linarith

lemma rounded_sum_err:
  assumes "0 \<le> d"
  shows "list_all (\<lambda>w. 0 \<le> w) ws \<Longrightarrow>
     \<bar>of_int (sum_list (map (\<lambda>w. py_round (to_double (d * w))) ws)) - d * sum_list ws\<bar>
       \<le> of_nat (length ws) / 2 + d * sum_list ws / 2 ^ 53"
proof (induction ws)
  case Nil
  then show ?case by simp
next
  case (Cons w ws)
  then have w: "0 \<le> w" and rest: "list_all (\<lambda>w. 0 \<le> w) ws" by simp_all
  from assms w have "0 \<le> d * w" by simp
  from rounded_product_err [OF this]
  have one: "\<bar>of_int (py_round (to_double (d * w))) - d * w\<bar> \<le> 1 / 2 + d * w / 2 ^ 53" .
  from Cons.IH [OF rest]
  have more: "\<bar>of_int (sum_list (map (\<lambda>w. py_round (to_double (d * w))) ws)) - d * sum_list ws\<bar>
       \<le> of_nat (length ws) / 2 + d * sum_list ws / 2 ^ 53" .
  have "of_int (sum_list (map (\<lambda>w. py_round (to_double (d * w))) (w # ws))) - d * sum_list (w # ws)
      = (of_int (py_round (to_double (d * w))) - d * w)
        + (of_int (sum_list (map (\<lambda>w. py_round (to_double (d * w))) ws)) - d * sum_list ws)"
    by (simp add: algebra_simps)
  moreover have "of_nat (length (w # ws)) / 2 + d * sum_list (w # ws) / 2 ^ 53
      = (1 / 2 + d * w / 2 ^ 53) + (of_nat (length ws) / 2 + d * sum_list ws / 2 ^ 53)"
    by (simp add: algebra_simps add_divide_distrib)
  ultimately show ?case using one more by linarith
qed

lemma drift_arith:
  fixes V B d S :: rat and n :: nat
  assumes v: "\<bar>V - d * S\<bar> \<le> of_nat n / 2 + d * S / 2 ^ 53"
    and d: "\<bar>d - B\<bar> \<le> B / 2 ^ 53"
    and s: "\<bar>S - 1\<bar> \<le> 1 / 2 ^ 55"
    and b: "0 < B" "B \<le> 2 ^ 53"
    and n: "5 \<le> n"
  shows "\<bar>V - B\<bar> \<le> of_nat n"
proof -
  from b have bq: "B / 2 ^ 53 \<le> 1" by simp
  from b have bb: "B / 2 ^ 53 \<le> B" by (simp add: field_simps)
  from d bq bb have dle: "d \<le> 2 ^ 53 + 1" and dnn: "0 \<le> d" using b by linarith+
  have small: "(1 / 2 ^ 55 :: rat) \<le> 1" by simp
  from s small have sle: "S \<le> 1 + 1 / 2 ^ 55" and snn: "0 \<le> S" by linarith+
  have ds: "d * S \<le> (2 ^ 53 + 1) * (1 + 1 / 2 ^ 55)"
    using dle sle dnn snn by (intro mult_mono) simp_all
  then have t1: "d * S / 2 ^ 53 \<le> (2 ^ 53 + 1) * (1 + 1 / 2 ^ 55) / 2 ^ 53"
    by (rule divide_right_mono) simp
  have "\<bar>d - B\<bar> * S \<le> 1 * (1 + 1 / 2 ^ 55)"
    using d bq sle snn by (intro mult_mono) simp_all
  then have t2: "\<bar>(d - B) * S\<bar> \<le> 1 + 1 / 2 ^ 55"
    using snn by (simp add: abs_mult)
  have "B * \<bar>S - 1\<bar> \<le> 2 ^ 53 * (1 / 2 ^ 55)"
    using b s by (intro mult_mono) simp_all
  then have t3: "\<bar>B * (S - 1)\<bar> \<le> 1 / 4"
    using b by (simp add: abs_mult)
  have "d * S - B = (d - B) * S + B * (S - 1)" by (simp add: algebra_simps)
  with t2 t3 have t4: "\<bar>d * S - B\<bar> \<le> 1 + 1 / 2 ^ 55 + 1 / 4" by linarith
  have c: "(2 ^ 53 + 1) * (1 + 1 / 2 ^ 55) / 2 ^ 53 + (1 + 1 / 2 ^ 55 + 1 / 4) \<le> (5 / 2 :: rat)"
    by simp
  from n have n5: "(5 / 2 :: rat) \<le> of_nat n / 2" by simp
  from v t1 t4 c n5 show ?thesis by linarith
qed

lemma breakdown_drift:
  assumes b: "0 < b" "b \<le> 2 ^ 53" and ok: "template_ok tpl"
  shows "\<exists>bd. fill_breakdown b tpl [] = Inr bd \<and> map fst bd = map fst tpl
           \<and> \<bar>sum_list (map snd bd) - b\<bar> \<le> int (length tpl)"
proof -
  define d where "d = to_double (of_int b)"
  define bd where "bd = map (\<lambda>kw. (fst kw, py_round (to_double (d * snd kw)))) tpl"
  from b have f: "float_of_int b = Inr d" unfolding d_def by (intro float_of_int_small) simp_all
  from ok have dist: "distinct (map fst [] @ map fst tpl)" by (simp add: template_ok_def)
  from fill_breakdown_values [OF f dist] have run: "fill_breakdown b tpl [] = Inr bd"
    by (simp add: bd_def)
  have keys: "map fst bd = map fst tpl" by (simp add: bd_def)
  have vals: "map snd bd = map (\<lambda>w. py_round (to_double (d * w))) (map snd tpl)"
    by (simp add: bd_def)
  from b have bnn: "(0::rat) \<le> of_int b" by simp
  from to_double_nonneg [OF bnn] have dnn: "0 \<le> d" by (simp add: d_def)
  from ok have wnn: "list_all (\<lambda>w. 0 \<le> w) (map snd tpl)"
    by (simp add: template_ok_def list_all_iff)
  from rounded_sum_err [OF dnn wnn]
  have v: "\<bar>of_int (sum_list (map snd bd)) - d * sum_list (map snd tpl)\<bar>
       \<le> of_nat (length tpl) / 2 + d * sum_list (map snd tpl) / 2 ^ 53"
    by (simp add: vals)
  from to_double_err [OF bnn] have de: "\<bar>d - of_int b\<bar> \<le> of_int b / 2 ^ 53"
    by (simp add: d_def)
  from ok have s: "\<bar>sum_list (map snd tpl) - 1\<bar> \<le> 1 / 2 ^ 55" and n: "5 \<le> length tpl"
    by (simp_all add: template_ok_def)
  from b have bq: "(0::rat) < of_int b" "(of_int b :: rat) \<le> 2 ^ 53"
    by (simp, metis of_int_le_iff of_int_numeral of_int_power)
  from drift_arith [OF v de s bq n]
  have "\<bar>(of_int (sum_list (map snd bd)) :: rat) - of_int b\<bar> \<le> of_nat (length tpl)" .
  then have "\<bar>(of_int (sum_list (map snd bd) - b) :: rat)\<bar> \<le> of_int (int (length tpl))"
    by simp
  then have "\<bar>sum_list (map snd bd) - b\<bar> \<le> int (length tpl)"
    by (metis of_int_abs of_int_le_iff)
  with run keys show ?thesis by blast
qed

lemma find_entertainment:
  assumes keys: "map fst bd = map fst tpl"
    and ex: "list_ex (\<lambda>kw. is_entertainment_label (fst kw)) tpl"
  shows "\<exists>kv. find (\<lambda>kv. is_entertainment_label (fst kv)) bd = Some kv \<and> kv \<in> set bd
           \<and> is_entertainment_label (fst kv)"
proof -
  from ex have "\<exists>k\<in>set (map fst tpl). is_entertainment_label k"
    by (auto simp: list_ex_iff)
  with keys have "\<exists>k\<in>set (map fst bd). is_entertainment_label k" by simp
  then have "\<exists>kv\<in>set bd. is_entertainment_label (fst kv)" by auto
  then have "find (\<lambda>kv. is_entertainment_label (fst kv)) bd \<noteq> None"
    by (auto simp: find_None_iff)
  then obtain kv where f: "find (\<lambda>kv. is_entertainment_label (fst kv)) bd = Some kv" by auto
  then have "kv \<in> set bd" "is_entertainment_label (fst kv)"
    by (auto simp: find_Some_iff)
  with f show ?thesis by blast
qed

lemma wedding_template:
  "map fst (template_for ''wedding'') = wedding_labels"
  "map snd (template_for ''wedding'') = wedding_weights"
  "distinct (map fst (template_for ''wedding''))"
proof -
  show "map fst (template_for ''wedding'') = wedding_labels"
    by (simp add: dict_get_def BUDGET_TEMPLATES_def wedding_labels_def)
  show "map snd (template_for ''wedding'') = wedding_weights"
    unfolding BUDGET_TEMPLATES_def float_lit_values
    by (simp add: dict_get_def wedding_weights_def)
  show "distinct (map fst (template_for ''wedding''))"
    using template_ok_lookup [of "''wedding''"] by (simp add: template_ok_def)
qed

lemma float_of_int_eval:
  "to_double (of_int b) = d \<Longrightarrow> \<bar>d\<bar> < 2 ^ 1024 \<Longrightarrow> float_of_int b = Inr d"
  by (simp add: float_of_int_def Let_def)

lemma fill_breakdown_zip:
  assumes "float_of_int b = Inr d" "distinct (map fst tpl)"
  shows "fill_breakdown b tpl [] =
     Inr (zip (map fst tpl) (map (\<lambda>w. py_round (to_double (d * w))) (map snd tpl)))"
proof -
  from assms(2) have "distinct (map fst [] @ map fst tpl)" by simp
  from fill_breakdown_values [OF assms(1) this]
  have "fill_breakdown b tpl [] = Inr (map (\<lambda>kw. (fst kw, py_round (to_double (d * snd kw)))) tpl)"
    by simp
  moreover have "map (\<lambda>kw. (fst kw, py_round (to_double (d * snd kw)))) tpl
      = zip (map fst tpl) (map (\<lambda>w. py_round (to_double (d * w))) (map snd tpl))"
    by (induction tpl) simp_all
  ultimately show ?thesis by simp
qed

lemma plan_fields:
  assumes "generate_event_plan env ev_name budget query = Inr p"
  shows "\<exists>x catalog.
      fill_breakdown budget
        (template_for (detect_event_type (query @ '' '' @ ev_name))) []
        = Inr (breakdown p)
      \<and> int_times_float budget (float_lit 0.20) = Inr x
      \<and> load_artists env = Inr catalog
      \<and> event_type p = detect_event_type (query @ '' '' @ ev_name)
      \<and> timeline p = timeline_for (detect_event_type (query @ '' '' @ ev_name))
      \<and> tips p = tips_for (detect_event_type (query @ '' '' @ ev_name))
      \<and> entertainment_budget p = first_entertainment (breakdown p) (py_trunc x)
      \<and> artists p = shortlist catalog (entertainment_budget p)
          (categories_for (detect_event_type (query @ '' '' @ ev_name)))"
  using assms
  by (auto simp: generate_event_plan_def Let_def table_defaults split: sum.splits)

lemma plan_exists:
  assumes "0 < budget" "budget \<le> 2 ^ 53" "load_artists env = Inr catalog"
  shows "\<exists>p. generate_event_plan env ev_name budget query = Inr p"
proof -
  from breakdown_drift [OF assms(1,2) template_ok_lookup] obtain bd where
    "fill_breakdown budget
       (template_for (detect_event_type (query @ '' '' @ ev_name))) [] = Inr bd"
    by blast
  moreover from assms(1,2) have "float_of_int budget = Inr (to_double (of_int budget))"
    by (intro float_of_int_small) simp_all
  then have "\<exists>x. int_times_float budget (float_lit 0.20) = Inr x"
    by (simp add: int_times_float_def)
  ultimately show ?thesis using assms(3)
    by (auto simp: generate_event_plan_def Let_def table_defaults)
qed

section \<open>Properties of the budget breakdown\<close>

text \<open>
  Claim C5 (amended). For every event type the weights of its template, taken as the
  doubles the literals denote, sum to 1 within \<open>1e-6\<close>; and for every event type and every
  budget \<open>B\<close> with \<open>0 < B \<le> 2^53\<close> the breakdown is computed and the sum of its amounts,
  each \<open>round(B * weight)\<close>, differs from \<open>B\<close> by at most the number of entries of the
  template. For larger budgets the rounding of the product \<open>B * weight\<close> to a double
  outgrows that bound.
\<close>

theorem breakdown_sums_to_budget:
  assumes "0 < budget" "budget \<le> 2 ^ 53"
  shows "\<bar>sum_list (map snd (template_for ev_type)) - 1\<bar> \<le> 1 / 10 ^ 6
    \<and> (\<exists>bd. fill_breakdown budget (template_for ev_type) [] = Inr bd
          \<and> map fst bd = map fst (template_for ev_type)
          \<and> \<bar>sum_list (map snd bd) - budget\<bar>
               \<le> int (length (template_for ev_type)))"
proof -
  have "\<bar>sum_list (map snd (template_for ev_type)) - 1\<bar> \<le> 1 / 2 ^ 55"
    using template_ok_lookup [of ev_type] by (simp add: template_ok_def)
  moreover have "(1 / 2 ^ 55 :: rat) \<le> 1 / 10 ^ 6" by simp
  ultimately have "\<bar>sum_list (map snd (template_for ev_type)) - 1\<bar> \<le> 1 / 10 ^ 6"
    by linarith
  with breakdown_drift [OF assms template_ok_lookup [of ev_type]] show ?thesis by blast
qed

theorem breakdown_sums_to_budget_witness:
  "(0::int) < 20000 \<and> (20000::int) \<le> 2 ^ 53
   \<and> (\<exists>bd. fill_breakdown 20000 (template_for ''wedding'') [] = Inr bd
          \<and> \<bar>sum_list (map snd bd) - 20000\<bar>
               \<le> int (length (template_for ''wedding'')))"
proof -
  have "(0::int) < 20000" "(20000::int) \<le> 2 ^ 53" by simp_all
  from breakdown_sums_to_budget [OF this, of "''wedding''"] show ?thesis by auto
qed

theorem breakdown_drift_counterexample:
  "extract_budget_from_text ''plan my wedding with $1152921504606846976'' = Some (2 ^ 60)
   \<and> (case fill_breakdown (2 ^ 60) (template_for ''wedding'') [] of
        Inl e \<Rightarrow> None
      | Inr bd \<Rightarrow> Some (sum_list (map snd bd) - 2 ^ 60)) = Some 16
   \<and> length (template_for ''wedding'') = 7"
proof -
  have x: "extract_budget_from_text ''plan my wedding with $1152921504606846976''
      = Some (2 ^ 60)"
    by (simp add: budget_eval)
  have d: "to_double (of_int (2 ^ 60)) = 2 ^ 60" by code_simp
  have f: "float_of_int (2 ^ 60) = Inr (2 ^ 60)"
    by (rule float_of_int_eval [OF d]) simp
  have amounts: "map (\<lambda>w. py_round (to_double (2 ^ 60 * w))) wedding_weights
      = [345876451382054080, 288230376151711744, 230584300921369408, 115292150460684704,
         80704505322479296, 57646075230342352, 34587645138205408]"
    unfolding wedding_weights_def by code_simp
  from fill_breakdown_zip [OF f, of "template_for ''wedding''"]
    wedding_template amounts
  have "fill_breakdown (2 ^ 60) (template_for ''wedding'') []
      = Inr (zip wedding_labels
          [345876451382054080, 288230376151711744, 230584300921369408, 115292150460684704,
           80704505322479296, 57646075230342352, 34587645138205408])"
    by simp
  moreover have len: "length wedding_labels = 7" by (simp add: wedding_labels_def)
  moreover have "length (template_for ''wedding'') = 7"
    using arg_cong [OF wedding_template(1), of length] len by simp
  ultimately show ?thesis using x by simp
qed

lemma fill_breakdown_raises:
  assumes "int_times_float b w = Inl e" "tpl \<noteq> []"
  shows "fill_breakdown b tpl acc = Inl e"
proof -
  from assms(1) have f: "float_of_int b = Inl e"
    by (simp add: int_times_float_def split: sum.splits)
  from assms(2) obtain k w' rest where "tpl = (k, w') # rest" by (cases tpl) auto
  with f show ?thesis by (simp add: int_times_float_def)
qed

section \<open>Properties of the entertainment budget\<close>

text \<open>
  Claim C10. Every template, the one of \<open>default\<close> included, has a label whose lower-cased
  form contains "entertainment" or "artist". So in every plan that
  \<open>generate_event_plan\<close> returns, the entertainment budget is the amount of a breakdown
  entry with such a label, and the fallback \<open>int(budget * 0.20)\<close> is never the result,
  whatever its value. Python computes the fallback as an argument of \<open>next\<close>; when that
  computation raises, the breakdown loop has raised the same exception before it. For
  budgets up to \<open>2^53\<close> and a readable catalog a plan is returned.
\<close>

theorem entertainment_budget_is_allocated:
  "list_ex (\<lambda>kw. is_entertainment_label (fst kw)) (template_for ev_type)
   \<and> (\<forall>p. generate_event_plan env ev_name budget query = Inr p \<longrightarrow>
         (\<exists>kv\<in>set (breakdown p). is_entertainment_label (fst kv)
             \<and> entertainment_budget p = snd kv)
         \<and> (\<forall>fallback. first_entertainment (breakdown p) fallback = entertainment_budget p))
   \<and> (\<forall>e. int_times_float budget (float_lit 0.20) = Inl e \<longrightarrow>
         fill_breakdown budget (template_for ev_type) [] = Inl e)
   \<and> (0 < budget \<and> budget \<le> 2 ^ 53 \<and> (\<exists>catalog. load_artists env = Inr catalog) \<longrightarrow>
         (\<exists>p. generate_event_plan env ev_name budget query = Inr p))"
proof -
  have nonempty: "template_for ev_type \<noteq> []"
    using template_ok_lookup [of ev_type] by (auto simp: template_ok_def)
  have r: "\<forall>e. int_times_float budget (float_lit 0.20) = Inl e \<longrightarrow>
         fill_breakdown budget (template_for ev_type) [] = Inl e"
    using fill_breakdown_raises [OF _ nonempty] by blast
  have a: "list_ex (\<lambda>kw. is_entertainment_label (fst kw)) (template_for ev_type)"
    by (rule template_entertainment_lookup)
  have b: "(\<exists>kv\<in>set (breakdown p). is_entertainment_label (fst kv)
             \<and> entertainment_budget p = snd kv)
         \<and> (\<forall>fallback. first_entertainment (breakdown p) fallback = entertainment_budget p)"
    if run: "generate_event_plan env ev_name budget query = Inr p" for p
  proof -
    let ?tpl = "template_for (detect_event_type (query @ '' '' @ ev_name))"
    from plan_fields [OF run] obtain x where
      fill: "fill_breakdown budget ?tpl [] = Inr (breakdown p)"
      and ent: "entertainment_budget p = first_entertainment (breakdown p) (py_trunc x)"
      by blast
    from template_ok_lookup have "distinct (map fst [] @ map fst ?tpl)"
      by (simp add: template_ok_def)
    from fill_breakdown_keys [OF fill this] have keys: "map fst (breakdown p) = map fst ?tpl"
      by simp
    from find_entertainment [OF keys template_entertainment_lookup] obtain kv where
      kv: "find (\<lambda>kv. is_entertainment_label (fst kv)) (breakdown p) = Some kv"
        "kv \<in> set (breakdown p)" "is_entertainment_label (fst kv)"
      by blast
    from kv(1) have "first_entertainment (breakdown p) fallback = snd kv" for fallback
      by (simp add: first_entertainment_def)
    with ent kv show ?thesis by auto
  qed
  have c: "0 < budget \<and> budget \<le> 2 ^ 53 \<and> (\<exists>catalog. load_artists env = Inr catalog) \<longrightarrow>
         (\<exists>p. generate_event_plan env ev_name budget query = Inr p)"
    using plan_exists by blast
  from a b r c show ?thesis by blast
qed

section \<open>Properties of the provider shortlist\<close>











section \<open>Properties of the retrieval engine\<close>

text \<open>
  Claim C1 (amended). An exception raised while embedding the query or ranking the
  catalog (by the index or by the cosine fallback) ends the attempt and is caught. The
  handler then reads the catalog, and when that read succeeds \<open>rag_search\<close> returns
  \<open>artists[:top_k]\<close> (the first \<open>top_k\<close> entries for \<open>top_k \<ge> 0\<close>) in storage order, each
  with the score 0.5, and no filters. The read in the handler is not guarded:
  \<open>rag_search\<close> raises exactly when the attempt fails and that read fails too.
\<close>

theorem rag_search_degrades:
  "(\<forall>e arts. rag_attempt env q k = Inl e \<and> load_artists env = Inr arts \<longrightarrow>
       rag_search env q k = Inr (map (\<lambda>a. (a, 1 / 2)) (py_take k arts), no_filters))
   \<and> (\<forall>arts. 0 \<le> k \<longrightarrow> py_take k arts = take (nat k) (arts :: artist list))
   \<and> (\<forall>e. encode_query env q = Inl e \<longrightarrow> rag_attempt env q k = Inl e)
   \<and> (\<forall>v e. encode_query env q = Inr v \<and> index_search env = None
          \<and> cosine_search env v (k * 3) = Inl e \<longrightarrow> rag_attempt env q k = Inl e)
   \<and> (\<forall>v search e. encode_query env q = Inr v \<and> index_search env = Some search
          \<and> search v (min (k * 3) (int (length (artists_for_rag env)))) = Inl e \<longrightarrow>
          rag_attempt env q k = Inl e)
   \<and> ((\<exists>e. rag_search env q k = Inl e) \<longleftrightarrow>
        (\<exists>e. rag_attempt env q k = Inl e) \<and> (\<exists>e. load_artists env = Inl e))"
  by (auto simp: rag_search_def rag_attempt_def py_take_def Let_def split: sum.splits option.splits)

theorem rag_search_degrades_witness:
  "rag_attempt (failing_env\<lparr>load_artists := Inr [demo_artist 1 ''Singer'' 100 5,
        demo_artist 2 ''DJ'' 200 4]\<rparr>) ''a singer'' 1 = Inl (Exn ''RuntimeError'')
   \<and> rag_search (failing_env\<lparr>load_artists := Inr [demo_artist 1 ''Singer'' 100 5,
        demo_artist 2 ''DJ'' 200 4]\<rparr>) ''a singer'' 1
       = Inr ([(demo_artist 1 ''Singer'' 100 5, 1 / 2)], no_filters)"
proof -
  let ?env = "failing_env\<lparr>load_artists := Inr [demo_artist 1 ''Singer'' 100 5,
        demo_artist 2 ''DJ'' 200 4]\<rparr>"
  have a: "rag_attempt ?env ''a singer'' 1 = Inl (Exn ''RuntimeError'')"
    by (simp add: rag_attempt_def failing_env_def)
  have l: "load_artists ?env = Inr [demo_artist 1 ''Singer'' 100 5, demo_artist 2 ''DJ'' 200 4]"
    by simp
  from rag_search_degrades [of ?env "''a singer''" 1] a l
  have "rag_search ?env ''a singer'' 1
      = Inr (map (\<lambda>a. (a, 1 / 2)) (py_take 1 [demo_artist 1 ''Singer'' 100 5,
          demo_artist 2 ''DJ'' 200 4]), no_filters)"
    by blast
  then show ?thesis using a by (simp add: py_take_def)
qed

theorem rag_search_raises_counterexample:
  "rag_search failing_env ''a singer in chicago'' 3 = Inl (Exn ''FileNotFoundError'')"
  by (simp add: rag_search_def rag_attempt_def failing_env_def)

text \<open>
  Claim C2. A candidate is kept exactly when its minimum price does not exceed
  \<open>max_budget\<close>, its lower-cased location contains the city and its category equals the
  filtered category up to letter case, each test applying only when its key is present.
  The kept candidates are cut to \<open>top_k\<close>; when none is kept, the first \<open>top_k\<close> of the
  unfiltered ranking are returned. The ranking that reaches this step holds at most
  \<open>3 * top_k\<close> candidates (both backends are asked for that many), so a non-empty ranking
  gives a non-empty result.
\<close>

theorem select_results_filtering:
  assumes "0 \<le> top_k"
  shows "(passes f a \<longleftrightarrow>
            \<not> ((\<exists>b. max_budget f = Some b \<and> b < price_min a)
               \<or> (\<exists>c. city f = Some c \<and> \<not> py_in c (py_lower (location a)))
               \<or> (\<exists>c. category_filter f = Some c \<and> py_lower (category a) \<noteq> py_lower c)))
         \<and> select_results results f top_k =
             (if \<exists>r\<in>set results. passes f (fst r)
              then take (nat top_k) (filter (\<lambda>r. passes f (fst r)) results)
              else take (nat top_k) results)
         \<and> (results \<noteq> [] \<and> int (length results) \<le> 3 * top_k \<longrightarrow>
               select_results results f top_k \<noteq> [])
         \<and> (results \<noteq> [] \<and> 0 < top_k \<longrightarrow> select_results results f top_k \<noteq> [])"
proof -
  have p: "passes f a \<longleftrightarrow>
            \<not> ((\<exists>b. max_budget f = Some b \<and> b < price_min a)
               \<or> (\<exists>c. city f = Some c \<and> \<not> py_in c (py_lower (location a)))
               \<or> (\<exists>c. category_filter f = Some c \<and> py_lower (category a) \<noteq> py_lower c))"
    by (auto simp: passes_def split: option.splits)
  have nz: "take (nat top_k) xs \<noteq> []" if "xs \<noteq> []" "0 < top_k"
    for xs :: "(artist \<times> rat) list"
    using that by (cases xs) (simp_all add: take_Cons')
  let ?out = "filter (\<lambda>r. passes f (fst r)) results"
  have s: "select_results results f top_k =
             (if \<exists>r\<in>set results. passes f (fst r)
              then take (nat top_k) ?out else take (nat top_k) results)"
  proof (cases "?out = []")
    case True
    then have no: "\<not> (\<exists>r\<in>set results. passes f (fst r))"
      by (simp add: filter_empty_conv)
    from True assms have "select_results results f top_k = take (nat top_k) results"
      by (simp add: select_results_def apply_filters_def py_take_def Let_def)
    with no show ?thesis by simp
  next
    case False
    then have yes: "\<exists>r\<in>set results. passes f (fst r)"
      by (simp add: filter_empty_conv)
    have "select_results results f top_k = take (nat top_k) ?out"
    proof (cases "top_k = 0")
      case True
      then show ?thesis
        by (simp add: select_results_def apply_filters_def py_take_def Let_def)
    next
      case nonzero: False
      with assms have "0 < top_k" by simp
      from nz [OF False this] False assms show ?thesis
        by (simp add: select_results_def apply_filters_def py_take_def Let_def)
    qed
    with yes show ?thesis by simp
  qed
  have e: "select_results results f top_k \<noteq> []" if r: "results \<noteq> []" and k: "0 < top_k"
  proof (cases "?out = []")
    case True
    then have "\<not> (\<exists>r\<in>set results. passes f (fst r))" by (simp add: filter_empty_conv)
    with s nz [OF r k] show ?thesis by simp
  next
    case False
    then have "\<exists>r\<in>set results. passes f (fst r)" by (simp add: filter_empty_conv)
    with s nz [OF False k] show ?thesis by simp
  qed
  have b: "0 < top_k" if "results \<noteq> []" "int (length results) \<le> 3 * top_k"
  proof -
    from that(1) have "0 < int (length results)" by simp
    with that(2) show ?thesis by linarith
  qed
  from p s e b show ?thesis by blast
qed

theorem select_results_filtering_witness:
  "(0::int) \<le> 3
   \<and> int (length [(demo_artist 1 ''Singer'' 5000 5, 9 / 10 :: rat),
                   (demo_artist 2 ''Singer'' 100 4, 8 / 10)]) \<le> 3 * 3
   \<and> select_results
         [(demo_artist 1 ''Singer'' 5000 5, 9 / 10), (demo_artist 2 ''Singer'' 100 4, 8 / 10)]
         \<lparr>max_budget = Some 2000, city = Some ''chicago'', category_filter = Some ''singer''\<rparr> 3
       = [(demo_artist 2 ''Singer'' 100 4, 8 / 10)]
   \<and> select_results
         [(demo_artist 1 ''Singer'' 5000 5, 9 / 10), (demo_artist 2 ''Singer'' 100 4, 8 / 10)]
         \<lparr>max_budget = Some 50, city = None, category_filter = None\<rparr> 3
       = [(demo_artist 1 ''Singer'' 5000 5, 9 / 10), (demo_artist 2 ''Singer'' 100 4, 8 / 10)]"
proof -
  let ?f = "\<lparr>max_budget = Some 2000, city = Some ''chicago'', category_filter = Some ''singer''\<rparr>"
  let ?g = "\<lparr>max_budget = Some 50, city = None, category_filter = None\<rparr>"
  let ?rs = "[(demo_artist 1 ''Singer'' 5000 5, 9 / 10 :: rat),
              (demo_artist 2 ''Singer'' 100 4, 8 / 10)]"
  have a: "\<not> passes ?f (demo_artist 1 ''Singer'' 5000 5)"
    by (simp add: passes_def demo_artist_def)
  have b: "passes ?f (demo_artist 2 ''Singer'' 100 4)"
    by (simp add: passes_def demo_artist_def py_lower_def lower_char_def)
  have c: "\<not> passes ?g (demo_artist 1 ''Singer'' 5000 5)"
    "\<not> passes ?g (demo_artist 2 ''Singer'' 100 4)"
    by (simp_all add: passes_def demo_artist_def)
  have k: "(0::int) \<le> 3" by simp
  from select_results_filtering [OF k, of ?f "demo_artist 1 ''Singer'' 5000 5" ?rs]
  have "select_results ?rs ?f 3
      = (if \<exists>r\<in>set ?rs. passes ?f (fst r)
         then take (nat 3) (filter (\<lambda>r. passes ?f (fst r)) ?rs)
         else take (nat 3) ?rs)"
    by blast
  with a b have one: "select_results ?rs ?f 3 = [(demo_artist 2 ''Singer'' 100 4, 8 / 10)]"
    by simp
  from select_results_filtering [OF k, of ?g "demo_artist 1 ''Singer'' 5000 5" ?rs]
  have "select_results ?rs ?g 3
      = (if \<exists>r\<in>set ?rs. passes ?g (fst r)
         then take (nat 3) (filter (\<lambda>r. passes ?g (fst r)) ?rs)
         else take (nat 3) ?rs)"
    by blast
  with c have two: "select_results ?rs ?g 3 = ?rs" by simp
  from one two show ?thesis by simp
qed

section \<open>Properties of provider cards\<close>

text \<open>
  Claim C8 (amended). For a score \<open>s\<close> in [0, 1] the match score of a card is
  \<open>min(int(s * 100), 99)\<close>: the product is cut off towards zero, not rounded. It lies
  between 0 and 99 and is the rounded percentage or one less.
\<close>

theorem match_score_truncates:
  assumes "0 \<le> s" "s \<le> 1"
  shows "match_score s = min \<lfloor>to_double (s * 100)\<rfloor> 99
         \<and> 0 \<le> match_score s \<and> match_score s \<le> 99
         \<and> match_score s \<le> min (py_round (to_double (s * 100))) 99
         \<and> min (py_round (to_double (s * 100))) 99 \<le> match_score s + 1
         \<and> map card_match_score (format_cards ms) = map (\<lambda>m. match_score (snd m)) ms"
proof -
  from assms have nn: "0 \<le> to_double (s * 100)" by (simp add: to_double_nonneg)
  then have m: "match_score s = min \<lfloor>to_double (s * 100)\<rfloor> 99"
    by (simp add: match_score_def py_trunc_def)
  from nn have f: "0 \<le> \<lfloor>to_double (s * 100)\<rfloor>" by simp
  have c: "map card_match_score (format_cards ms) = map (\<lambda>m. match_score (snd m)) ms"
    by (simp add: format_cards_def split_def)
  from m f c py_round_bounds [of "to_double (s * 100)"] show ?thesis by auto
qed

theorem match_score_truncates_witness:
  "(0::rat) \<le> 1 / 2 \<and> (1 / 2 :: rat) \<le> 1 \<and> match_score (1 / 2) = 50"
proof -
  have d: "to_double (1 / 2 * 100) = 50" by code_simp
  have "(0::rat) \<le> 1 / 2" "(1 / 2 :: rat) \<le> 1" by simp_all
  from match_score_truncates [OF this, of "[]"]
  have "match_score (1 / 2) = min \<lfloor>to_double (1 / 2 * 100)\<rfloor> 99" by blast
  with d show ?thesis by simp
qed

theorem match_score_rounding_counterexample:
  "match_score (7 / 8) = 87 \<and> min (py_round (to_double (7 / 8 * 100))) 99 = 88"
  by code_simp







lemma demo_env_load: "load_artists (demo_env catalog) = Inr catalog"
  by (simp add: demo_env_def)





theorem entertainment_budget_is_allocated_witness:
  "(0::int) < 20000 \<and> (20000::int) \<le> 2 ^ 53
   \<and> (\<exists>catalog. load_artists (demo_env []) = Inr catalog)
   \<and> (\<exists>p. generate_event_plan (demo_env []) ''Wedding'' 20000 ''plan my wedding with $20000'' = Inr p
         \<and> (\<exists>kv\<in>set (breakdown p). is_entertainment_label (fst kv)
               \<and> entertainment_budget p = snd kv))"
proof -
  have h: "(0::int) < 20000 \<and> (20000::int) \<le> 2 ^ 53
      \<and> (\<exists>catalog. load_artists (demo_env []) = Inr catalog)"
    by (simp add: demo_env_load)
  with entertainment_budget_is_allocated
    [of "''wedding''" "demo_env []" "''Wedding''" 20000 "''plan my wedding with $20000''"]
  show ?thesis by blast
qed

section \<open>Properties of concert plans\<close>




end
